theory Spec2Isabelle
  imports Main
begin

section \<open>Data model of gen\_host\_vars.py\<close>

text \<open>
  A device of the catalog is a Python dict with the keys \<open>hostname\<close>, \<open>loopback0\<close>,
  \<open>loopback1\<close> and \<open>mgmt\<close>. The first three are read with \<open>device[...]\<close>; \<open>mgmt\<close> is
  read with \<open>device.get('mgmt', 'ansible_host_not_set')\<close>, so it alone may be absent.
\<close>

record device =
  hostname :: string
  loopback0 :: string
  loopback1 :: string
  mgmt :: "string option"

text \<open>
  The values the script stores in its dictionaries and hands to the YAML serializer:
  integers, strings, lists, and nested dictionaries (in insertion order) whose keys are
  strings or integers.
\<close>

datatype pyval =
    PInt int
  | PStr string
  | PList "pyval list"
  | PDict "(pyval \<times> pyval) list"

text \<open>
  \<open>host_vars\<close> and \<open>group_vars\<close> are insertion-ordered dicts from string keys to a value
  or to \<open>None\<close> (the comment entries).
\<close>

type_synonym vars = "(string \<times> pyval option) list"

subsection \<open>Python primitives used by the script\<close>

text \<open>\<open>s.startswith(p)\<close>, as the helper of the substring search.\<close>

fun starts_with :: "string \<Rightarrow> string \<Rightarrow> bool" where
  "starts_with s [] = True"
| "starts_with [] (p # ps) = False"
| "starts_with (c # cs) (p # ps) = (c = p \<and> starts_with cs ps)"

text \<open>\<open>sub in s\<close> on strings: \<open>sub\<close> occurs at some position of \<open>s\<close>.\<close>

fun str_in :: "string \<Rightarrow> string \<Rightarrow> bool" where
  "str_in sub [] = (sub = [])"
| "str_in sub (c # cs) = (starts_with (c # cs) sub \<or> str_in sub cs)"

text \<open>\<open>d[k] = v\<close>: an existing key keeps its position, a new key goes last.\<close>

fun dict_set :: "('k \<times> 'v) list \<Rightarrow> 'k \<Rightarrow> 'v \<Rightarrow> ('k \<times> 'v) list" where
  "dict_set [] k v = [(k, v)]"
| "dict_set ((k', v') # kvs) k v =
     (if k' = k then (k', v) # kvs else (k', v') # dict_set kvs k v)"

text \<open>\<open>d.update(other)\<close>: the entries of \<open>other\<close> are stored one by one, in order.\<close>

fun dict_update :: "('k \<times> 'v) list \<Rightarrow> ('k \<times> 'v) list \<Rightarrow> ('k \<times> 'v) list" where
  "dict_update d [] = d"
| "dict_update d ((k, v) # us) = dict_update (dict_set d k v) us"

text \<open>\<open>d.get(k)\<close>, with \<open>None\<close> for a missing key, and \<open>k in d\<close>.\<close>

definition dict_get :: "('k \<times> 'v) list \<Rightarrow> 'k \<Rightarrow> 'v option" where
  "dict_get d k = map_of d k"

definition has_key :: "('k \<times> 'v) list \<Rightarrow> 'k \<Rightarrow> bool" where
  "has_key d k = (dict_get d k \<noteq> None)"

section \<open>Device catalog\<close>

definition mk_device :: "string \<Rightarrow> string \<Rightarrow> string \<Rightarrow> string \<Rightarrow> device" where
  "mk_device h l0 l1 m = \<lparr>hostname = h, loopback0 = l0, loopback1 = l1, mgmt = Some m\<rparr>"

definition devices_data :: "device list" where
  "devices_data =
    [mk_device ''dub-ssp1'' ''10.10.10.1'' ''20.20.20.1'' ''1.1.1.1'',
     mk_device ''dub-ssp2'' ''10.10.10.2'' ''20.20.20.2'' ''1.1.1.2'',
     mk_device ''dub-ssp3'' ''10.10.10.3'' ''20.20.20.3'' ''1.1.1.3'',
     mk_device ''dub-ssp4'' ''10.10.10.4'' ''20.20.20.4'' ''1.1.1.4'',
     mk_device ''dub-st1-sp1'' ''10.10.10.5'' ''20.20.20.5'' ''1.1.1.5'',
     mk_device ''dub-st1-sp2'' ''10.10.10.6'' ''20.20.20.6'' ''1.1.1.6'',
     mk_device ''dub-st1-lf1'' ''10.10.10.11'' ''20.20.20.11'' ''1.1.1.11'',
     mk_device ''dub-st1-lf2'' ''10.10.10.12'' ''20.20.20.12'' ''1.1.1.12'',
     mk_device ''dub-st2-sp1'' ''10.10.10.7'' ''20.20.20.7'' ''1.1.1.7'',
     mk_device ''dub-st2-sp2'' ''10.10.10.8'' ''20.20.20.8'' ''1.1.1.8'',
     mk_device ''dub-st2-lf1'' ''10.10.10.13'' ''20.20.20.13'' ''1.1.1.13'',
     mk_device ''dub-st2-lf2'' ''10.10.10.14'' ''20.20.20.14'' ''1.1.1.14'',
     mk_device ''dub-st3-sp1'' ''10.10.10.9'' ''20.20.20.9'' ''1.1.1.9'',
     mk_device ''dub-st3-sp2'' ''10.10.10.10'' ''20.20.20.10'' ''1.1.1.10'',
     mk_device ''dub-st3-lf1'' ''10.10.10.15'' ''20.20.20.15'' ''1.1.1.15'',
     mk_device ''dub-st3-lf2'' ''10.10.10.16'' ''20.20.20.16'' ''1.1.1.16'']"

section \<open>Classifier\<close>

definition determine_device_type :: "string \<Rightarrow> string" where
  "determine_device_type hn =
     (if str_in ''-ssp'' hn then ''superspine''
      else if str_in ''-sp'' hn \<and> \<not> str_in ''-ssp'' hn then ''spine''
      else if str_in ''-lf'' hn then ''leaf''
      else ''unknown'')"

definition extract_building :: "string \<Rightarrow> string option" where
  "extract_building hn =
     (if str_in ''-st1-'' hn then Some ''st1''
      else if str_in ''-st2-'' hn then Some ''st2''
      else if str_in ''-st3-'' hn then Some ''st3''
      else None)"

definition vlan_mapping :: "(string \<times> int list) list" where
  "vlan_mapping =
     [(''st1'', [100, 200, 300]),
      (''st2'', [200, 300, 400]),
      (''st3'', [100, 300, 400])]"

text \<open>
  \<open>vlan_mapping.get(building, [])\<close>. The argument is what \<open>extract_building\<close> returns, a
  string or \<open>None\<close>; \<open>None\<close> is no key of the table.
\<close>

definition get_building_vlans :: "string option \<Rightarrow> int list" where
  "get_building_vlans building =
     (case building of
        None \<Rightarrow> []
      | Some b \<Rightarrow> (case dict_get vlan_mapping b of None \<Rightarrow> [] | Some vs \<Rightarrow> vs))"

section \<open>Variable builder\<close>

text \<open>The dict comprehension \<open>{vlan: vlan + 10000 for vlan in building_vlans}\<close>.\<close>

fun vni_comprehension :: "(pyval \<times> pyval) list \<Rightarrow> int list \<Rightarrow> (pyval \<times> pyval) list" where
  "vni_comprehension d [] = d"
| "vni_comprehension d (vlan # vlans) =
     vni_comprehension (dict_set d (PInt vlan) (PInt (vlan + 10000))) vlans"

text \<open>Truth value of \<open>building\<close> in \<open>if building:\<close> (\<open>None\<close> and the empty string are false).\<close>

definition truthy :: "string option \<Rightarrow> bool" where
  "truthy b = (case b of None \<Rightarrow> False | Some s \<Rightarrow> s \<noteq> [])"

definition base_vars :: "device \<Rightarrow> vars" where
  "base_vars dev =
     [(''# Device identification'', None),
      (''hostname'', Some (PStr (hostname dev))),
      (''device_type'', Some (PStr (determine_device_type (hostname dev)))),
      (''router_id'', Some (PStr (loopback0 dev))),
      (''# Routing parameters'', None),
      (''ospf_process_id'', Some (PInt 1)),
      (''ospf_area'', Some (PStr ''0.0.0.0'')),
      (''bgp_asn'', Some (PInt 65001))]"

definition superspine_vars :: "device \<Rightarrow> vars" where
  "superspine_vars dev =
     [(''# BGP Route Reflector role'', None),
      (''bgp_role'', Some (PStr ''route_reflector'')),
      (''route_reflector_cluster_id'', Some (PStr ''1.1.1.1'')),
      (''# Loopback interfaces (RR only)'', None),
      (''loopback_interfaces'', Some (PDict
         [(PStr ''loopback0'', PDict
            [(PStr ''description'', PStr ''Router-ID for OSPF and BGP Route Reflector''),
             (PStr ''ip_address'', PStr (loopback0 dev @ ''/32''))])]))]"

definition vtep_vars :: "device \<Rightarrow> vars" where
  "vtep_vars dev =
     [(''# VTEP configuration'', None),
      (''vtep_ip'', Some (PStr (loopback1 dev))),
      (''bgp_role'', Some (PStr ''route_reflector_client'')),
      (''# Loopback interfaces (VTEP enabled)'', None),
      (''loopback_interfaces'', Some (PDict
         [(PStr ''loopback0'', PDict
            [(PStr ''description'', PStr ''Router-ID for OSPF and BGP''),
             (PStr ''ip_address'', PStr (loopback0 dev @ ''/32''))]),
          (PStr ''loopback1'', PDict
            [(PStr ''description'', PStr ''VTEP Loopback for VXLAN''),
             (PStr ''ip_address'', PStr (loopback1 dev @ ''/32''))])]))]"

definition building_vars :: "string \<Rightarrow> int list \<Rightarrow> vars" where
  "building_vars b building_vlans =
     [(''# Building-specific configuration'', None),
      (''building'', Some (PStr b)),
      (''vlans'', Some (PList (map PInt building_vlans)))]"

definition vni_vars :: "int list \<Rightarrow> vars" where
  "vni_vars building_vlans =
     [(''# VLAN to VNI mappings'', None),
      (''vni_mappings'', Some (PDict (vni_comprehension [] building_vlans)))]"

text \<open>
  \<open>generate_host_vars(device)\<close>: the base dict, then the three \<open>update\<close> calls under the
  source's conditions. The dict literals handed to \<open>update\<close> are \<open>superspine_vars\<close>,
  \<open>vtep_vars\<close>, \<open>building_vars\<close> and \<open>vni_vars\<close> above.
\<close>

definition generate_host_vars :: "device \<Rightarrow> vars" where
  "generate_host_vars dev =
     (let device_type = determine_device_type (hostname dev);
          building = extract_building (hostname dev);
          host_vars0 = base_vars dev;
          host_vars1 =
            (if device_type = ''superspine''
             then dict_update host_vars0 (superspine_vars dev)
             else dict_update host_vars0 (vtep_vars dev))
      in case building of
           None \<Rightarrow> host_vars1
         | Some b \<Rightarrow>
             if \<not> truthy building then host_vars1
             else
               (let building_vlans = get_building_vlans building;
                    host_vars2 = dict_update host_vars1 (building_vars b building_vlans)
                in if device_type \<in> set [''spine'', ''leaf''] \<and> building_vlans \<noteq> []
                   then dict_update host_vars2 (vni_vars building_vlans)
                   else host_vars2))"

text \<open>The dict literal \<open>group_vars\<close> of \<open>create_group_vars()\<close>.\<close>

definition group_vars :: vars where
  "group_vars =
     [(''# Global network parameters'', None),
      (''ospf_process_id'', Some (PInt 1)),
      (''ospf_area'', Some (PStr ''0.0.0.0'')),
      (''bgp_asn'', Some (PInt 65001)),
      (''# VXLAN global settings'', None),
      (''vxlan_udp_port'', Some (PInt 4789)),
      (''multicast_group'', Some (PStr ''239.1.1.1'')),
      (''# Global VLAN to VNI mappings'', None),
      (''global_vni_mappings'', Some (PDict
         [(PInt 100, PInt 10100),
          (PInt 200, PInt 10200),
          (PInt 300, PInt 10300),
          (PInt 400, PInt 10400)])),
      (''# Building VLAN assignments'', None),
      (''building_vlans'', Some (PDict
         [(PStr ''st1'', PList [PInt 100, PInt 200, PInt 300]),
          (PStr ''st2'', PList [PInt 200, PInt 300, PInt 400]),
          (PStr ''st3'', PList [PInt 100, PInt 300, PInt 400])])),
      (''# VLAN stretching design'', None),
      (''vlan_stretching'', Some (PDict
         [(PInt 100, PList [PStr ''st1'', PStr ''st3'']),
          (PInt 200, PList [PStr ''st1'', PStr ''st2'']),
          (PInt 300, PList [PStr ''st1'', PStr ''st2'', PStr ''st3'']),
          (PInt 400, PList [PStr ''st2'', PStr ''st3''])])),
      (''# Route reflector settings'', None),
      (''route_reflector_cluster_id'', Some (PStr ''1.1.1.1'')),
      (''# Ansible connection parameters'', None),
      (''ansible_user'', Some (PStr ''admin'')),
      (''ansible_password'', Some (PStr ''Firelab33'')),
      (''ansible_network_os'', Some (PStr ''cisco.nxos.nxos'')),
      (''ansible_connection'', Some (PStr ''ansible.netcommon.network_cli'')),
      (''ansible_ssh_common_args'', Some (PStr ''-o StrictHostKeyChecking=no''))]"

section \<open>Emitters\<close>

text \<open>
  The script writes into the current working directory. The model keeps what its file
  operations depend on: which paths are directories and which are regular files, and the
  content of the files. \<open>Path.mkdir(exist_ok=True)\<close> and \<open>open(path, 'w')\<close> fail on a
  path of the wrong kind or in a missing directory; permissions and device errors are
  outside the model. Every file is opened with \<open>'w'\<close>, written and closed, so a file
  ends with the concatenation of what was written. What the script prints is no part of
  any file and is left out.
\<close>

datatype node = File string | Dir

type_synonym fs = "string \<Rightarrow> node option"

datatype py_error =
    KeyError
  | FileExistsError
  | FileNotFoundError
  | NotADirectoryError
  | IsADirectoryError

text \<open>\<open>Path(d) / name\<close>, for a name without a separator.\<close>

definition path_join :: "string \<Rightarrow> string \<Rightarrow> string" where
  "path_join d n = d @ ''/'' @ n"

text \<open>\<open>Path(p).mkdir(exist_ok=True)\<close> in the working directory.\<close>

definition mkdir_exist_ok :: "string \<Rightarrow> fs \<Rightarrow> py_error + fs" where
  "mkdir_exist_ok p fs =
     (case fs p of
        None \<Rightarrow> Inr (fs(p \<mapsto> Dir))
      | Some Dir \<Rightarrow> Inr fs
      | Some (File c) \<Rightarrow> Inl FileExistsError)"

text \<open>
  \<open>with open(path, 'w') as f: ...\<close>, where the body writes \<open>content\<close> in all: the file
  of that path in directory \<open>dir\<close> (\<open>None\<close>: the working directory) is created or
  replaced.
\<close>

definition write_text :: "string option \<Rightarrow> string \<Rightarrow> string \<Rightarrow> fs \<Rightarrow> py_error + fs" where
  "write_text dir name content fs =
     (case dir of
        None \<Rightarrow>
          (case fs name of
             Some Dir \<Rightarrow> Inl IsADirectoryError
           | _ \<Rightarrow> Inr (fs(name \<mapsto> File content)))
      | Some d \<Rightarrow>
          (case fs d of
             None \<Rightarrow> Inl FileNotFoundError
           | Some (File c) \<Rightarrow> Inl NotADirectoryError
           | Some Dir \<Rightarrow>
               (case fs (path_join d name) of
                  Some Dir \<Rightarrow> Inl IsADirectoryError
                | _ \<Rightarrow> Inr (fs(path_join d name \<mapsto> File content)))))"

text \<open>Sequencing: an exception ends the run.\<close>

definition and_then :: "py_error + fs \<Rightarrow> (fs \<Rightarrow> py_error + fs) \<Rightarrow> py_error + fs" where
  "and_then r f = (case r of Inl e \<Rightarrow> Inl e | Inr fs \<Rightarrow> f fs)"

subsection \<open>Per-device files\<close>

text \<open>
  \<open>yaml.dump({key: value}, f, default_flow_style=False, indent=2)\<close> is PyYAML's; the
  script only calls it. It is the parameter \<open>dump\<close> below: the text PyYAML writes for
  the one-entry mapping of \<open>key\<close> to a value, in block style.
\<close>

type_synonym dumper = "string \<Rightarrow> pyval \<Rightarrow> string"

text \<open>The loop over \<open>host_vars.items()\<close> in \<open>create_host_vars_files\<close>.\<close>

fun host_items_text :: "dumper \<Rightarrow> vars \<Rightarrow> string" where
  "host_items_text dump [] = []"
| "host_items_text dump ((key, v) # items) =
     (case v of
        None \<Rightarrow> ''\<newline>'' @ key @ ''\<newline>''
      | Some x \<Rightarrow> dump key x)
     @ host_items_text dump items"

definition host_file_text :: "dumper \<Rightarrow> vars \<Rightarrow> string" where
  "host_file_text dump host_vars = ''---\<newline>'' @ host_items_text dump host_vars"

text \<open>The loop over the devices in \<open>create_host_vars_files\<close>.\<close>

fun write_host_files :: "dumper \<Rightarrow> string \<Rightarrow> device list \<Rightarrow> fs \<Rightarrow> py_error + fs" where
  "write_host_files dump output_dir [] fs = Inr fs"
| "write_host_files dump output_dir (dev # devices) fs =
     and_then
       (write_text (Some output_dir) (hostname dev @ ''.yml'')
          (host_file_text dump (generate_host_vars dev)) fs)
       (write_host_files dump output_dir devices)"

definition create_host_vars_files :: "dumper \<Rightarrow> device list \<Rightarrow> string \<Rightarrow> fs \<Rightarrow> py_error + fs" where
  "create_host_vars_files dump devices output_dir fs =
     and_then (mkdir_exist_ok output_dir fs) (write_host_files dump output_dir devices)"

subsection \<open>Global file\<close>

text \<open>The loop over \<open>group_vars.items()\<close> in \<open>create_group_vars\<close>.\<close>

fun group_items_text :: "dumper \<Rightarrow> vars \<Rightarrow> string" where
  "group_items_text dump [] = []"
| "group_items_text dump ((key, v) # items) =
     (case v of
        None \<Rightarrow> ''\<newline>'' @ key @ ''\<newline>''
      | Some x \<Rightarrow> dump key x)
     @ group_items_text dump items"

definition group_file_text :: "dumper \<Rightarrow> string" where
  "group_file_text dump = ''---\<newline>'' @ group_items_text dump group_vars"

definition create_group_vars :: "dumper \<Rightarrow> fs \<Rightarrow> py_error + fs" where
  "create_group_vars dump fs =
     and_then (mkdir_exist_ok ''group_vars'' fs)
       (write_text (Some ''group_vars'') ''all.yml'' (group_file_text dump))"

subsection \<open>Inventory\<close>

text \<open>
  The loop that groups the devices by building. \<open>buildings[building]\<close> raises
  \<open>KeyError\<close> for a building that is no key of \<open>buildings\<close>.
\<close>

fun group_by_building ::
  "(string \<times> device list) list \<Rightarrow> device list \<Rightarrow> py_error + (string \<times> device list) list" where
  "group_by_building buildings [] = Inr buildings"
| "group_by_building buildings (dev # devices) =
     (case extract_building (hostname dev) of
        None \<Rightarrow> group_by_building buildings devices
      | Some b \<Rightarrow>
          if \<not> truthy (Some b) then group_by_building buildings devices
          else
            (case dict_get buildings b of
               None \<Rightarrow> Inl KeyError
             | Some ds \<Rightarrow> group_by_building (dict_set buildings b (ds @ [dev])) devices))"

text \<open>One inventory line per device of a list.\<close>

fun inventory_lines :: "device list \<Rightarrow> string" where
  "inventory_lines [] = []"
| "inventory_lines (dev # devices) =
     (let mgmt_ip = (case mgmt dev of None \<Rightarrow> ''ansible_host_not_set'' | Some m \<Rightarrow> m)
      in hostname dev @ '' ansible_host='' @ mgmt_ip @ ''\<newline>'')
     @ inventory_lines devices"

text \<open>The loop over \<open>buildings.items()\<close>: a section for each building that has devices.\<close>

fun building_sections :: "(string \<times> device list) list \<Rightarrow> string" where
  "building_sections [] = []"
| "building_sections ((building, devices_in_building) # buildings) =
     (if devices_in_building \<noteq> []
      then ''\<newline>['' @ building @ '']\<newline>'' @ inventory_lines devices_in_building
      else [])
     @ building_sections buildings"

text \<open>The literal that \<open>inventory_content\<close> starts from.\<close>

definition inventory_header :: string where
  "inventory_header = concat
    [''# Multi-Building Campus EVPN Lab Inventory\<newline>'',
     ''# 4 Superspines + 3 Buildings with selective VLAN stretching\<newline>'',
     ''\<newline>'',
     ''[superspines]\<newline>'']"

text \<open>The literal appended last to \<open>inventory_content\<close>.\<close>

definition inventory_footer :: string where
  "inventory_footer = concat
    [''\<newline>'',
     ''# Hierarchical groups\<newline>'',
     ''[all:children]\<newline>'',
     ''superspines\<newline>'',
     ''spines\<newline>'',
     ''leafs\<newline>'',
     ''\<newline>'',
     ''# Device type groups for targeted playbook runs\<newline>'',
     ''[route_reflectors:children]\<newline>'',
     ''superspines\<newline>'',
     ''\<newline>'',
     ''[vtep_devices:children]\<newline>'',
     ''spines\<newline>'',
     ''leafs\<newline>'',
     ''\<newline>'',
     ''# Building groups for VLAN-specific deployments\<newline>'',
     ''[building_st1:children]\<newline>'',
     ''st1\<newline>'',
     ''\<newline>'',
     ''[building_st2:children]\<newline>'',
     ''st2\<newline>'',
     ''\<newline>'',
     ''[building_st3:children]\<newline>'',
     ''st3\<newline>'']"

definition inventory_content :: "device list \<Rightarrow> py_error + string" where
  "inventory_content devices =
     (let superspines = filter (\<lambda>d. determine_device_type (hostname d) = ''superspine'') devices;
          spines = filter (\<lambda>d. determine_device_type (hostname d) = ''spine'') devices;
          leafs = filter (\<lambda>d. determine_device_type (hostname d) = ''leaf'') devices
      in case group_by_building [(''st1'', []), (''st2'', []), (''st3'', [])] devices of
           Inl e \<Rightarrow> Inl e
         | Inr buildings \<Rightarrow>
             Inr (inventory_header
                  @ inventory_lines superspines
                  @ ''\<newline>[spines]\<newline>'' @ inventory_lines spines
                  @ ''\<newline>[leafs]\<newline>'' @ inventory_lines leafs
                  @ building_sections buildings
                  @ inventory_footer))"

definition create_inventory_file :: "device list \<Rightarrow> fs \<Rightarrow> py_error + fs" where
  "create_inventory_file devices fs =
     (case inventory_content devices of
        Inl e \<Rightarrow> Inl e
      | Inr content \<Rightarrow> write_text None ''inventory.ini'' content fs)"

subsection \<open>Documentation file and the whole run\<close>

text \<open>The literal \<open>readme_content\<close> of \<open>create_readme()\<close>, line by line; a character outside ASCII is
  written as the bytes of its UTF-8 encoding.\<close>

definition readme_content :: string where
  "readme_content = concat
    [''# Multi-Building Campus EVPN Lab\<newline>'',
     ''Generated Ansible files for your GNS3 lab topology.\<newline>'',
     ''\<newline>'',
     ''## Topology Overview\<newline>'',
     ''- **4 Superspines**: Route Reflectors only (dub-ssp1-4)\<newline>'',
     ''- **3 Buildings**: Connected via dark fiber\<newline>'',
     ''  - Building st1: VLANs 100, 200, 300\<newline>'',
     ''  - Building st2: VLANs 200, 300, 400  \<newline>'',
     ''  - Building st3: VLANs 100, 300, 400\<newline>'',
     ''\<newline>'',
     ''## VLAN Stretching Design\<newline>'',
     ''- VLAN 100: st1 '' @ [CHR 0xE2, CHR 0x86, CHR 0x94] @ '' st3\<newline>'',
     ''- VLAN 200: st1 '' @ [CHR 0xE2, CHR 0x86, CHR 0x94] @ '' st2\<newline>'',
     ''- VLAN 300: st1 '' @ [CHR 0xE2, CHR 0x86, CHR 0x94] @ '' st2 '' @ [CHR 0xE2, CHR 0x86, CHR 0x94] @ '' st3 (global)\<newline>'',
     ''- VLAN 400: st2 '' @ [CHR 0xE2, CHR 0x86, CHR 0x94] @ '' st3\<newline>'',
     ''\<newline>'',
     ''## Usage Examples\<newline>'',
     ''\<newline>'',
     ''### Test connectivity\<newline>'',
     ''```bash\<newline>'',
     ''ansible all -i inventory.ini -m ping\<newline>'',
     ''```\<newline>'',
     ''\<newline>'',
     ''### Configure loopbacks (underlay foundation)\<newline>'',
     ''```bash\<newline>'',
     ''ansible-playbook -i inventory.ini loopback_config.yml -v\<newline>'',
     ''```\<newline>'',
     ''\<newline>'',
     ''### Deploy BGP EVPN (overlay)\<newline>'',
     ''```bash\<newline>'',
     ''ansible-playbook -i inventory.ini bgp_evpn_config.yml -v\<newline>'',
     ''```\<newline>'',
     ''\<newline>'',
     ''### Target specific device types\<newline>'',
     ''```bash\<newline>'',
     ''ansible-playbook -i inventory.ini playbook.yml --limit superspines\<newline>'',
     ''ansible-playbook -i inventory.ini playbook.yml --limit building_st1\<newline>'',
     ''ansible-playbook -i inventory.ini playbook.yml --limit vtep_devices\<newline>'',
     ''```\<newline>'',
     ''\<newline>'',
     ''### Dry run (check mode)\<newline>'',
     ''```bash\<newline>'',
     ''ansible-playbook -i inventory.ini playbook.yml --check\<newline>'',
     ''```\<newline>'',
     ''\<newline>'',
     ''## File Structure\<newline>'',
     ''```\<newline>'',
     [CHR 0xE2, CHR 0x94, CHR 0x9C] @ [CHR 0xE2, CHR 0x94, CHR 0x80] @ [CHR 0xE2, CHR 0x94, CHR 0x80] @ '' host_vars/          # Individual device variables\<newline>'',
     [CHR 0xE2, CHR 0x94, CHR 0x82] @ ''   '' @ [CHR 0xE2, CHR 0x94, CHR 0x9C] @ [CHR 0xE2, CHR 0x94, CHR 0x80] @ [CHR 0xE2, CHR 0x94, CHR 0x80] @ '' dub-ssp1.yml\<newline>'',
     [CHR 0xE2, CHR 0x94, CHR 0x82] @ ''   '' @ [CHR 0xE2, CHR 0x94, CHR 0x9C] @ [CHR 0xE2, CHR 0x94, CHR 0x80] @ [CHR 0xE2, CHR 0x94, CHR 0x80] @ '' dub-st1-sp1.yml\<newline>'',
     [CHR 0xE2, CHR 0x94, CHR 0x82] @ ''   '' @ [CHR 0xE2, CHR 0x94, CHR 0x94] @ [CHR 0xE2, CHR 0x94, CHR 0x80] @ [CHR 0xE2, CHR 0x94, CHR 0x80] @ '' ...\<newline>'',
     [CHR 0xE2, CHR 0x94, CHR 0x9C] @ [CHR 0xE2, CHR 0x94, CHR 0x80] @ [CHR 0xE2, CHR 0x94, CHR 0x80] @ '' group_vars/         # Global variables\<newline>'',
     [CHR 0xE2, CHR 0x94, CHR 0x82] @ ''   '' @ [CHR 0xE2, CHR 0x94, CHR 0x94] @ [CHR 0xE2, CHR 0x94, CHR 0x80] @ [CHR 0xE2, CHR 0x94, CHR 0x80] @ '' all.yml\<newline>'',
     [CHR 0xE2, CHR 0x94, CHR 0x9C] @ [CHR 0xE2, CHR 0x94, CHR 0x80] @ [CHR 0xE2, CHR 0x94, CHR 0x80] @ '' inventory.ini       # Device inventory\<newline>'',
     [CHR 0xE2, CHR 0x94, CHR 0x94] @ [CHR 0xE2, CHR 0x94, CHR 0x80] @ [CHR 0xE2, CHR 0x94, CHR 0x80] @ '' README.md          # This file\<newline>'',
     ''```\<newline>'',
     ''\<newline>'',
     ''## Next Steps\<newline>'',
     ''1. Update management IP addresses in inventory.ini if needed\<newline>'',
     ''2. Test basic connectivity with ping module\<newline>'',
     ''3. Deploy underlay configuration (OSPF + loopbacks)\<newline>'',
     ''4. Deploy overlay configuration (BGP EVPN)\<newline>'',
     ''5. Add access layer configuration per building\<newline>'']"

definition create_readme :: "fs \<Rightarrow> py_error + fs" where
  "create_readme fs = write_text None ''README.md'' readme_content fs"

text \<open>\<open>main()\<close>: the four generators, in the order of the source.\<close>

definition main :: "dumper \<Rightarrow> fs \<Rightarrow> py_error + fs" where
  "main dump fs =
     and_then
       (and_then
          (and_then (create_host_vars_files dump devices_data ''host_vars'' fs)
             (create_group_vars dump))
          (create_inventory_file devices_data))
       create_readme"

section \<open>Vocabulary of the properties\<close>

text \<open>The dict handed to the first \<open>update\<close> call, whichever branch runs.\<close>

definition role_vars :: "device \<Rightarrow> vars" where
  "role_vars dev = (if determine_device_type (hostname dev) = ''superspine''
                    then superspine_vars dev else vtep_vars dev)"

text \<open>An entry of a VLAN-to-VNI table is right when both sides are integers and
  the VNI is the VLAN plus 10000.\<close>

fun vni_entry_ok :: "pyval \<times> pyval \<Rightarrow> bool" where
  "vni_entry_ok (PInt vlan, PInt vni) = (vni = vlan + 10000)"
| "vni_entry_ok (k, v) = False"

text \<open>The VNI table of a VLAN list, entry by entry in the order of the list.\<close>

definition vni_of_vlans :: "int list \<Rightarrow> (pyval \<times> pyval) list" where
  "vni_of_vlans vl = map (\<lambda>vlan. (PInt vlan, PInt (vlan + 10000))) vl"

subsection \<open>File operations of a run\<close>

text \<open>
  A run of the script is a fixed sequence of two kinds of file operation. The sequence,
  its interpreter and what it leaves behind are the vocabulary of the properties of whole
  runs.
\<close>

datatype file_op = Mkdir string | WriteText "string option" string string

text \<open>One operation and a sequence of them, by the script's own \<open>mkdir_exist_ok\<close> and
  \<open>write_text\<close>; the first failure ends the sequence.\<close>

fun step :: "file_op \<Rightarrow> fs \<Rightarrow> py_error + fs" where
  "step (Mkdir p) fs = mkdir_exist_ok p fs"
| "step (WriteText dir name content) fs = write_text dir name content fs"

fun run :: "file_op list \<Rightarrow> fs \<Rightarrow> py_error + fs" where
  "run [] fs = Inr fs"
| "run (fo # fos) fs = and_then (step fo fs) (run fos)"

text \<open>The path an operation creates or replaces, and what it puts there.\<close>

fun target :: "file_op \<Rightarrow> string" where
  "target (Mkdir p) = p"
| "target (WriteText None name content) = name"
| "target (WriteText (Some d) name content) = path_join d name"

fun node_of :: "file_op \<Rightarrow> node" where
  "node_of (Mkdir p) = Dir"
| "node_of (WriteText dir name content) = File content"

text \<open>What a sequence leaves at the paths it touches: for each path, the last operation on it.\<close>

definition effect :: "file_op list \<Rightarrow> fs" where
  "effect fos = map_of (rev (map (\<lambda>fo. (target fo, node_of fo)) fos))"

text \<open>The kind of a path, and what an operation needs of the file system to succeed.\<close>

fun is_dir :: "node option \<Rightarrow> bool" where
  "is_dir (Some Dir) = True"
| "is_dir _ = False"

fun is_file :: "node option \<Rightarrow> bool" where
  "is_file (Some (File c)) = True"
| "is_file _ = False"

fun pre :: "file_op \<Rightarrow> fs \<Rightarrow> bool" where
  "pre (Mkdir p) fs = (\<not> is_file (fs p))"
| "pre (WriteText None name content) fs = (\<not> is_dir (fs name))"
| "pre (WriteText (Some d) name content) fs = (is_dir (fs d) \<and> \<not> is_dir (fs (path_join d name)))"

text \<open>Every directory of the first file system is a directory of the second, and every
  file a file.\<close>

definition kinds_kept :: "fs \<Rightarrow> fs \<Rightarrow> bool" where
  "kinds_kept fs g = (\<forall>p. (is_dir (fs p) \<longrightarrow> is_dir (g p)) \<and> (is_file (fs p) \<longrightarrow> is_file (g p)))"

text \<open>The operations of the loop over the devices, of the four generators in a row, and the
  paths of the files a run generates. \<open>the_inventory\<close> is the inventory text, for
  \<open>inventory_content\<close> is shown below never to fail.\<close>

definition host_ops :: "dumper \<Rightarrow> string \<Rightarrow> device list \<Rightarrow> file_op list" where
  "host_ops dump output_dir devices =
     map (\<lambda>dev. WriteText (Some output_dir) (hostname dev @ ''.yml'')
                  (host_file_text dump (generate_host_vars dev))) devices"

definition the_inventory :: "device list \<Rightarrow> string" where
  "the_inventory devices = (case inventory_content devices of Inl e \<Rightarrow> [] | Inr content \<Rightarrow> content)"

definition main_ops :: "dumper \<Rightarrow> file_op list" where
  "main_ops dump =
     Mkdir ''host_vars'' # host_ops dump ''host_vars'' devices_data @
     [Mkdir ''group_vars'',
      WriteText (Some ''group_vars'') ''all.yml'' (group_file_text dump),
      WriteText None ''inventory.ini'' (the_inventory devices_data),
      WriteText None ''README.md'' readme_content]"

definition output_files :: "string list" where
  "output_files =
     map (\<lambda>dev. path_join ''host_vars'' (hostname dev @ ''.yml'')) devices_data @
     [path_join ''group_vars'' ''all.yml'', ''inventory.ini'', ''README.md'']"

text \<open>The rendering rule in the words of the specification: the document-start marker, then
  each entry in insertion order, a \<open>None\<close> entry as an empty line followed by the
  comment text, any other entry as the serialized key/value pair.\<close>

definition render_entry :: "dumper \<Rightarrow> string \<times> pyval option \<Rightarrow> string" where
  "render_entry dump e =
     (case snd e of
        None \<Rightarrow> ''\<newline>'' @ fst e @ ''\<newline>''
      | Some x \<Rightarrow> dump (fst e) x)"

definition render_vars :: "dumper \<Rightarrow> vars \<Rightarrow> string" where
  "render_vars dump m = ''---\<newline>'' @ concat (map (render_entry dump) m)"

text \<open>Reading an inventory back: its lines, and the entries of a section, which are the lines
  after the section header up to the next empty line.\<close>

fun split_lines :: "string \<Rightarrow> string list" where
  "split_lines [] = [[]]"
| "split_lines (c # cs) =
     (if c = CHR 0x0A then [] # split_lines cs
      else (case split_lines cs of [] \<Rightarrow> [[c]] | l # ls \<Rightarrow> (c # l) # ls))"

definition section_entries :: "string \<Rightarrow> string list \<Rightarrow> string list" where
  "section_entries header ls =
     takeWhile (\<lambda>l. l \<noteq> []) (drop 1 (dropWhile (\<lambda>l. l \<noteq> header) ls))"

text \<open>The numbers of entries of the six device sections of an inventory, in the order
  superspines, spines, leafs, st1, st2, st3.\<close>

definition section_counts :: "string \<Rightarrow> nat list" where
  "section_counts content =
     map (\<lambda>header. length (section_entries header (split_lines content)))
       [''[superspines]'', ''[spines]'', ''[leafs]'', ''[st1]'', ''[st2]'', ''[st3]'']"

section \<open>Substring search\<close>

lemma starts_with_iff: "starts_with s p \<longleftrightarrow> (\<exists>ss. s = p @ ss)"
  by (induction s p rule: starts_with.induct) auto

lemma str_in_iff: "str_in sub s \<longleftrightarrow> (\<exists>ps ss. s = ps @ sub @ ss)"
proof (induction s)
  case Nil
  then show ?case by auto
next
  case (Cons c cs)
  show ?case
  proof
    assume "str_in sub (c # cs)"
    then consider "starts_with (c # cs) sub" | "str_in sub cs" by auto
    then show "\<exists>ps ss. c # cs = ps @ sub @ ss"
    proof cases
      case 1
      then obtain ss where "c # cs = sub @ ss" by (auto simp: starts_with_iff)
      then have "c # cs = [] @ sub @ ss" by simp
      then show ?thesis by blast
    next
      case 2
      then obtain ps ss where "cs = ps @ sub @ ss" using Cons.IH by auto
      then have "c # cs = (c # ps) @ sub @ ss" by simp
      then show ?thesis by blast
    qed
  next
    assume "\<exists>ps ss. c # cs = ps @ sub @ ss"
    then obtain ps ss where eq: "c # cs = ps @ sub @ ss" by blast
    show "str_in sub (c # cs)"
    proof (cases ps)
      case Nil
      then have "starts_with (c # cs) sub" using eq by (auto simp: starts_with_iff)
      then show ?thesis by simp
    next
      case (Cons a ps')
      then have "cs = ps' @ sub @ ss" using eq by simp
      then have "str_in sub cs" using Cons.IH by blast
      then show ?thesis by simp
    qed
  qed
qed

section \<open>Dictionaries built by fresh keys\<close>

lemma dict_set_fresh: "k \<notin> fst ` set d \<Longrightarrow> dict_set d k v = d @ [(k, v)]"
  by (induction d) auto

lemma dict_update_fresh:
  "distinct (map fst us) \<Longrightarrow> fst ` set us \<inter> fst ` set d = {} \<Longrightarrow> dict_update d us = d @ us"
proof (induction us arbitrary: d)
  case Nil
  then show ?case by simp
next
  case (Cons u us)
  obtain k v where u: "u = (k, v)" by (cases u)
  have fresh: "k \<notin> fst ` set d" using Cons.prems(2) u by auto
  have step: "dict_set d k v = d @ [(k, v)]" using fresh by (rule dict_set_fresh)
  have "dict_update (d @ [(k, v)]) us = (d @ [(k, v)]) @ us"
  proof (rule Cons.IH)
    show "distinct (map fst us)" using Cons.prems(1) by simp
    show "fst ` set us \<inter> fst ` set (d @ [(k, v)]) = {}"
      using Cons.prems u by auto
  qed
  then show ?case using u step by simp
qed

lemma extract_building_cases:
  "extract_building h = None \<or> extract_building h = Some ''st1''
   \<or> extract_building h = Some ''st2'' \<or> extract_building h = Some ''st3''"
  by (simp add: extract_building_def)

lemma keys_base: "map fst (base_vars dev) =
  [''# Device identification'', ''hostname'', ''device_type'', ''router_id'',
   ''# Routing parameters'', ''ospf_process_id'', ''ospf_area'', ''bgp_asn'']"
  by (simp add: base_vars_def)

lemma keys_superspine: "map fst (superspine_vars dev) =
  [''# BGP Route Reflector role'', ''bgp_role'', ''route_reflector_cluster_id'',
   ''# Loopback interfaces (RR only)'', ''loopback_interfaces'']"
  by (simp add: superspine_vars_def)

lemma keys_vtep: "map fst (vtep_vars dev) =
  [''# VTEP configuration'', ''vtep_ip'', ''bgp_role'',
   ''# Loopback interfaces (VTEP enabled)'', ''loopback_interfaces'']"
  by (simp add: vtep_vars_def)

lemma keys_building: "map fst (building_vars b vl) =
  [''# Building-specific configuration'', ''building'', ''vlans'']"
  by (simp add: building_vars_def)

lemma keys_vni: "map fst (vni_vars vl) = [''# VLAN to VNI mappings'', ''vni_mappings'']"
  by (simp add: vni_vars_def)

lemma update_role_ss: "dict_update (base_vars dev) (superspine_vars dev) = base_vars dev @ superspine_vars dev"
  by (rule dict_update_fresh) (simp_all only: keys_base keys_superspine set_map[symmetric], simp_all)

lemma update_role_vtep: "dict_update (base_vars dev) (vtep_vars dev) = base_vars dev @ vtep_vars dev"
  by (rule dict_update_fresh) (simp_all only: keys_base keys_vtep set_map[symmetric], simp_all)

lemma keys_role: "map fst (role_vars dev) =
   (if determine_device_type (hostname dev) = ''superspine''
    then [''# BGP Route Reflector role'', ''bgp_role'', ''route_reflector_cluster_id'',
          ''# Loopback interfaces (RR only)'', ''loopback_interfaces'']
    else [''# VTEP configuration'', ''vtep_ip'', ''bgp_role'',
          ''# Loopback interfaces (VTEP enabled)'', ''loopback_interfaces''])"
  by (simp add: role_vars_def keys_superspine keys_vtep)

lemma update_building:
  "dict_update (base_vars dev @ role_vars dev) (building_vars b vl)
     = base_vars dev @ role_vars dev @ building_vars b vl"
proof -
  have "dict_update (base_vars dev @ role_vars dev) (building_vars b vl)
     = (base_vars dev @ role_vars dev) @ building_vars b vl"
    by (rule dict_update_fresh)
       (simp_all only: keys_base keys_role keys_building set_map[symmetric] map_append, simp_all)
  then show ?thesis by simp
qed

lemma update_vni:
  "dict_update (base_vars dev @ role_vars dev @ building_vars b vl) (vni_vars vl)
     = base_vars dev @ role_vars dev @ building_vars b vl @ vni_vars vl"
proof -
  have "dict_update (base_vars dev @ role_vars dev @ building_vars b vl) (vni_vars vl)
     = (base_vars dev @ role_vars dev @ building_vars b vl) @ vni_vars vl"
    by (rule dict_update_fresh)
       (simp_all only: keys_base keys_role keys_building keys_vni set_map[symmetric] map_append,
        simp_all)
  then show ?thesis by simp
qed

lemma generate_host_vars_shape:
  "generate_host_vars dev =
     base_vars dev @ role_vars dev @
     (case extract_building (hostname dev) of
        None \<Rightarrow> []
      | Some b \<Rightarrow>
          building_vars b (get_building_vlans (Some b)) @
          (if determine_device_type (hostname dev) \<in> {''spine'', ''leaf''}
              \<and> get_building_vlans (Some b) \<noteq> []
           then vni_vars (get_building_vlans (Some b)) else []))"
proof -
  have role: "(if determine_device_type (hostname dev) = ''superspine''
               then dict_update (base_vars dev) (superspine_vars dev)
               else dict_update (base_vars dev) (vtep_vars dev))
              = base_vars dev @ role_vars dev"
    by (simp add: role_vars_def update_role_ss update_role_vtep)
  show ?thesis
  proof (cases "extract_building (hostname dev)")
    case None
    then show ?thesis
      unfolding generate_host_vars_def Let_def role by simp
  next
    case (Some b)
    have "b \<noteq> []" using Some extract_building_cases [of "hostname dev"] by auto
    then have t: "truthy (Some b)" by (simp add: truthy_def)
    show ?thesis
      unfolding generate_host_vars_def Let_def role Some
      using t by (simp add: update_building update_vni)
  qed
qed

lemma vni_comprehension_fresh:
  "distinct vl \<Longrightarrow> PInt ` set vl \<inter> fst ` set d = {} \<Longrightarrow>
   vni_comprehension d vl = d @ vni_of_vlans vl"
proof (induction vl arbitrary: d)
  case Nil
  then show ?case by (simp add: vni_of_vlans_def)
next
  case (Cons a vl)
  have "PInt a \<notin> fst ` set d" using Cons.prems(2) by auto
  then have s: "dict_set d (PInt a) (PInt (a + 10000)) = d @ [(PInt a, PInt (a + 10000))]"
    by (rule dict_set_fresh)
  have "vni_comprehension (d @ [(PInt a, PInt (a + 10000))]) vl
          = (d @ [(PInt a, PInt (a + 10000))]) @ vni_of_vlans vl"
  proof (rule Cons.IH)
    show "distinct vl" using Cons.prems(1) by simp
    show "PInt ` set vl \<inter> fst ` set (d @ [(PInt a, PInt (a + 10000))]) = {}"
      using Cons.prems by auto
  qed
  then show ?case using s by (simp add: vni_of_vlans_def)
qed

lemma get_building_vlans_eq:
  "get_building_vlans b =
     (if b = Some ''st1'' then [100, 200, 300]
      else if b = Some ''st2'' then [200, 300, 400]
      else if b = Some ''st3'' then [100, 300, 400]
      else [])"
  by (cases b) (simp_all add: get_building_vlans_def dict_get_def vlan_mapping_def)

lemma get_building_vlans_distinct: "distinct (get_building_vlans b)"
  by (simp add: get_building_vlans_eq)

lemma vni_comprehension_vlans:
  "vni_comprehension [] (get_building_vlans b) = vni_of_vlans (get_building_vlans b)"
  using vni_comprehension_fresh [where d = "[]" and vl = "get_building_vlans b"]
  by (simp add: get_building_vlans_distinct)

lemma vni_of_vlans_ok: "list_all vni_entry_ok (vni_of_vlans vl)"
  by (induction vl) (simp_all add: vni_of_vlans_def)

lemma get_vni_mappings:
  "dict_get (generate_host_vars dev) ''vni_mappings'' =
     (if determine_device_type (hostname dev) \<in> {''spine'', ''leaf''}
         \<and> extract_building (hostname dev) \<noteq> None
      then Some (Some (PDict (vni_of_vlans (get_building_vlans (extract_building (hostname dev))))))
      else None)"
  using extract_building_cases [of "hostname dev"]
  by (auto simp: generate_host_vars_shape vni_comprehension_vlans get_building_vlans_eq
       dict_get_def base_vars_def role_vars_def superspine_vars_def vtep_vars_def
       building_vars_def vni_vars_def vni_of_vlans_def)

lemmas part_defs = dict_get_def base_vars_def role_vars_def superspine_vars_def vtep_vars_def
       building_vars_def vni_vars_def

lemma get_vtep_ip:
  "dict_get (generate_host_vars dev) ''vtep_ip'' =
     (if determine_device_type (hostname dev) = ''superspine'' then None
      else Some (Some (PStr (loopback1 dev))))"
  using extract_building_cases [of "hostname dev"]
  by (auto simp: generate_host_vars_shape part_defs)

lemma get_bgp_role:
  "dict_get (generate_host_vars dev) ''bgp_role'' =
     (if determine_device_type (hostname dev) = ''superspine''
      then Some (Some (PStr ''route_reflector''))
      else Some (Some (PStr ''route_reflector_client'')))"
  using extract_building_cases [of "hostname dev"]
  by (auto simp: generate_host_vars_shape part_defs)

lemma get_cluster_id:
  "dict_get (generate_host_vars dev) ''route_reflector_cluster_id'' =
     (if determine_device_type (hostname dev) = ''superspine''
      then Some (Some (PStr ''1.1.1.1'')) else None)"
  using extract_building_cases [of "hostname dev"]
  by (auto simp: generate_host_vars_shape part_defs)

lemma get_loopback_interfaces:
  "dict_get (generate_host_vars dev) ''loopback_interfaces'' =
     (if determine_device_type (hostname dev) = ''superspine''
      then Some (Some (PDict
         [(PStr ''loopback0'', PDict
            [(PStr ''description'', PStr ''Router-ID for OSPF and BGP Route Reflector''),
             (PStr ''ip_address'', PStr (loopback0 dev @ ''/32''))])]))
      else Some (Some (PDict
         [(PStr ''loopback0'', PDict
            [(PStr ''description'', PStr ''Router-ID for OSPF and BGP''),
             (PStr ''ip_address'', PStr (loopback0 dev @ ''/32''))]),
          (PStr ''loopback1'', PDict
            [(PStr ''description'', PStr ''VTEP Loopback for VXLAN''),
             (PStr ''ip_address'', PStr (loopback1 dev @ ''/32''))])])))"
  using extract_building_cases [of "hostname dev"]
  by (auto simp: generate_host_vars_shape part_defs)

lemma get_building:
  "dict_get (generate_host_vars dev) ''building'' =
     (case extract_building (hostname dev) of None \<Rightarrow> None | Some b \<Rightarrow> Some (Some (PStr b)))"
  using extract_building_cases [of "hostname dev"]
  by (auto simp: generate_host_vars_shape part_defs)

lemma get_vlans:
  "dict_get (generate_host_vars dev) ''vlans'' =
     (case extract_building (hostname dev) of
        None \<Rightarrow> None
      | Some b \<Rightarrow> Some (Some (PList (map PInt (get_building_vlans (Some b))))))"
  using extract_building_cases [of "hostname dev"]
  by (auto simp: generate_host_vars_shape part_defs)

section \<open>Runs as sequences of file operations\<close>

lemma is_dir_iff: "is_dir x \<longleftrightarrow> x = Some Dir"
  by (cases x rule: is_dir.cases) simp_all

lemma is_file_iff: "is_file x \<longleftrightarrow> (\<exists>c. x = Some (File c))"
  by (cases x rule: is_file.cases) simp_all

lemma step_pre: "pre fo fs \<Longrightarrow> step fo fs = Inr (fs(target fo \<mapsto> node_of fo))"
proof (induction fo fs rule: pre.induct)
  case (1 p fs)
  then show ?case
    by (auto simp: mkdir_exist_ok_def is_file_iff split: option.splits node.splits)
next
  case (2 name content fs)
  then show ?case
    by (auto simp: write_text_def is_dir_iff split: option.splits node.splits)
next
  case (3 d name content fs)
  then show ?case
    by (auto simp: write_text_def is_dir_iff split: option.splits node.splits)
qed

lemma step_Inr_pre: "step fo fs = Inr fs' \<Longrightarrow> pre fo fs"
proof (induction fo fs rule: pre.induct)
  case (1 p fs)
  then show ?case
    by (auto simp: mkdir_exist_ok_def is_file_iff split: option.splits node.splits)
next
  case (2 name content fs)
  then show ?case
    by (auto simp: write_text_def is_dir_iff split: option.splits node.splits)
next
  case (3 d name content fs)
  then show ?case
    by (auto simp: write_text_def is_dir_iff split: option.splits node.splits)
qed

lemma step_Inr: "step fo fs = Inr fs' \<Longrightarrow> fs' = fs(target fo \<mapsto> node_of fo)"
  using step_pre [OF step_Inr_pre] by fastforce

lemma effect_Cons: "fs ++ effect (fo # fos) = fs(target fo \<mapsto> node_of fo) ++ effect fos"
proof -
  have "effect (fo # fos) = [target fo \<mapsto> node_of fo] ++ effect fos"
    by (simp add: effect_def)
  then have "fs ++ effect (fo # fos) = (fs ++ [target fo \<mapsto> node_of fo]) ++ effect fos"
    by (simp only: map_add_assoc)
  then show ?thesis by simp
qed

lemma and_then_Inr: "and_then r f = Inr fs' \<longleftrightarrow> (\<exists>fs1. r = Inr fs1 \<and> f fs1 = Inr fs')"
  by (cases r) (simp_all add: and_then_def)

lemma run_Inr: "run fos fs = Inr fs' \<Longrightarrow> fs' = fs ++ effect fos"
proof (induction fos arbitrary: fs)
  case Nil
  then show ?case by (simp add: effect_def)
next
  case (Cons fo fos)
  from Cons.prems obtain fs1 where s: "step fo fs = Inr fs1" and r: "run fos fs1 = Inr fs'"
    by (auto simp: and_then_Inr)
  have "fs1 = fs(target fo \<mapsto> node_of fo)" using s by (rule step_Inr)
  moreover have "fs' = fs1 ++ effect fos" using r by (rule Cons.IH)
  ultimately show ?case by (simp only: effect_Cons)
qed

lemma kinds_kept_refl: "kinds_kept fs fs"
  by (simp add: kinds_kept_def)

lemma kinds_kept_dir: "kinds_kept fs g \<Longrightarrow> fs p = Some Dir \<Longrightarrow> g p = Some Dir"
  unfolding kinds_kept_def is_dir_iff by blast

lemma kinds_kept_file: "kinds_kept fs g \<Longrightarrow> fs p = Some (File c) \<Longrightarrow> \<exists>c'. g p = Some (File c')"
  unfolding kinds_kept_def is_file_iff by blast

lemma kinds_keptI:
  assumes "\<And>p. fs p = Some Dir \<Longrightarrow> g p = Some Dir"
    and "\<And>p c. fs p = Some (File c) \<Longrightarrow> \<exists>c'. g p = Some (File c')"
  shows "kinds_kept fs g"
  unfolding kinds_kept_def is_dir_iff is_file_iff using assms by blast

lemma kinds_kept_trans: "kinds_kept a b \<Longrightarrow> kinds_kept b c \<Longrightarrow> kinds_kept a c"
  unfolding kinds_kept_def by blast

lemma path_join_neq: "path_join d name \<noteq> d"
  by (simp add: path_join_def)

lemma pre_upd_kinds_kept: "pre fo fs \<Longrightarrow> kinds_kept fs (fs(target fo \<mapsto> node_of fo))"
proof (induction fo fs rule: pre.induct)
  case (1 p fs)
  show ?case
  proof (rule kinds_keptI)
    fix q assume "fs q = Some Dir"
    then show "(fs(target (Mkdir p) \<mapsto> node_of (Mkdir p))) q = Some Dir" by simp
  next
    fix q c assume "fs q = Some (File c)"
    moreover from this have "q \<noteq> p" using 1 by (auto simp: is_file_iff)
    ultimately show "\<exists>c'. (fs(target (Mkdir p) \<mapsto> node_of (Mkdir p))) q = Some (File c')" by simp
  qed
next
  case (2 name content fs)
  show ?case
  proof (rule kinds_keptI)
    fix q assume "fs q = Some Dir"
    moreover from this have "q \<noteq> name" using 2 by (auto simp: is_dir_iff)
    ultimately show "(fs(target (WriteText None name content) \<mapsto> node_of (WriteText None name content))) q = Some Dir"
      by simp
  next
    fix q c assume "fs q = Some (File c)"
    then show "\<exists>c'. (fs(target (WriteText None name content) \<mapsto> node_of (WriteText None name content))) q = Some (File c')"
      by simp
  qed
next
  case (3 d name content fs)
  show ?case
  proof (rule kinds_keptI)
    fix q assume "fs q = Some Dir"
    moreover from this have "q \<noteq> path_join d name" using 3 by (auto simp: is_dir_iff)
    ultimately show "(fs(target (WriteText (Some d) name content) \<mapsto> node_of (WriteText (Some d) name content))) q = Some Dir"
      by simp
  next
    fix q c assume "fs q = Some (File c)"
    then show "\<exists>c'. (fs(target (WriteText (Some d) name content) \<mapsto> node_of (WriteText (Some d) name content))) q = Some (File c')"
      by simp
  qed
qed

lemma step_kinds_kept: "step fo fs = Inr fs' \<Longrightarrow> kinds_kept fs fs'"
  using pre_upd_kinds_kept [OF step_Inr_pre] step_Inr by blast

lemma run_kinds_kept: "run fos fs = Inr fs' \<Longrightarrow> kinds_kept fs fs'"
proof (induction fos arbitrary: fs)
  case Nil
  then show ?case by (simp add: kinds_kept_refl)
next
  case (Cons fo fos)
  from Cons.prems obtain fs1 where s: "step fo fs = Inr fs1" and r: "run fos fs1 = Inr fs'"
    by (auto simp: and_then_Inr)
  show ?case using step_kinds_kept [OF s] Cons.IH [OF r] by (rule kinds_kept_trans)
qed

text \<open>What an operation needs of the file system it leaves behind.\<close>

lemma pre_kinds_kept:
  assumes "pre fo fs" and "kinds_kept (fs(target fo \<mapsto> node_of fo)) g"
  shows "pre fo g"
  using assms
proof (induction fo fs rule: pre.induct)
  case (1 p fs)
  have "(fs(p \<mapsto> Dir)) p = Some Dir" by simp
  then have "g p = Some Dir" using 1(2) kinds_kept_dir by fastforce
  then show ?case by simp
next
  case (2 name content fs)
  have "(fs(name \<mapsto> File content)) name = Some (File content)" by simp
  then obtain c' where "g name = Some (File c')" using 2(2) kinds_kept_file by fastforce
  then show ?case by simp
next
  case (3 d name content fs)
  have "(fs(path_join d name \<mapsto> File content)) (path_join d name) = Some (File content)" by simp
  then obtain c' where f: "g (path_join d name) = Some (File c')"
    using 3(2) kinds_kept_file by fastforce
  have "fs d = Some Dir" using 3(1) by (simp add: is_dir_iff)
  then have "(fs(path_join d name \<mapsto> File content)) d = Some Dir"
    using path_join_neq [of d name] by simp
  then have "g d = Some Dir" using 3(2) kinds_kept_dir by fastforce
  then show ?case using f by simp
qed

text \<open>Redoing an operation on a file system that already has its kinds keeps them.\<close>

lemma kinds_kept_upd:
  assumes k: "kinds_kept fs' g" and t: "is_dir (fs' q) = is_dir (Some n)" "is_file (fs' q) = is_file (Some n)"
  shows "kinds_kept fs' (g(q \<mapsto> n))"
proof (rule kinds_keptI)
  fix p assume d: "fs' p = Some Dir"
  show "(g(q \<mapsto> n)) p = Some Dir"
  proof (cases "p = q")
    case True
    then show ?thesis using d t by (simp add: is_dir_iff)
  next
    case False
    then show ?thesis using kinds_kept_dir [OF k d] by simp
  qed
next
  fix p c assume f: "fs' p = Some (File c)"
  show "\<exists>c'. (g(q \<mapsto> n)) p = Some (File c')"
  proof (cases "p = q")
    case True
    then show ?thesis using f t by (simp add: is_file_iff)
  next
    case False
    then show ?thesis using kinds_kept_file [OF k f] by simp
  qed
qed

lemma kinds_of_written:
  assumes k: "kinds_kept (fs(q \<mapsto> n)) fs'"
  shows "is_dir (fs' q) = is_dir (Some n) \<and> is_file (fs' q) = is_file (Some n)"
proof (cases n)
  case (File c)
  have "(fs(q \<mapsto> n)) q = Some (File c)" using File by simp
  then obtain c' where "fs' q = Some (File c')" using kinds_kept_file [OF k] by blast
  then show ?thesis using File by simp
next
  case Dir
  have "(fs(q \<mapsto> n)) q = Some Dir" using Dir by simp
  then have "fs' q = Some Dir" using kinds_kept_dir [OF k] by blast
  then show ?thesis using Dir by simp
qed

lemma rerun:
  "run fos fs = Inr fs' \<Longrightarrow> kinds_kept fs' g \<Longrightarrow> run fos g = Inr (g ++ effect fos)"
proof (induction fos arbitrary: fs g)
  case Nil
  then show ?case by (simp add: effect_def)
next
  case (Cons fo fos)
  from Cons.prems(1) obtain fs1 where s: "step fo fs = Inr fs1" and r: "run fos fs1 = Inr fs'"
    by (auto simp: and_then_Inr)
  have e: "fs1 = fs(target fo \<mapsto> node_of fo)" using s by (rule step_Inr)
  have k1: "kinds_kept fs1 fs'" using r by (rule run_kinds_kept)
  have "kinds_kept fs1 g" using k1 Cons.prems(2) by (rule kinds_kept_trans)
  then have "pre fo g" using step_Inr_pre [OF s] pre_kinds_kept e by blast
  then have sg: "step fo g = Inr (g(target fo \<mapsto> node_of fo))" by (rule step_pre)
  have w: "is_dir (fs' (target fo)) = is_dir (Some (node_of fo))
           \<and> is_file (fs' (target fo)) = is_file (Some (node_of fo))"
    using k1 unfolding e by (rule kinds_of_written)
  have "kinds_kept fs' (g(target fo \<mapsto> node_of fo))"
    using Cons.prems(2) w by (simp add: kinds_kept_upd)
  with r have "run fos (g(target fo \<mapsto> node_of fo)) = Inr (g(target fo \<mapsto> node_of fo) ++ effect fos)"
    by (rule Cons.IH)
  then show ?case using sg by (simp only: run.simps and_then_def sum.case effect_Cons)
qed

lemma map_add_twice: "(m ++ e) ++ e = m ++ e"
  by (rule ext) (simp add: map_add_def split: option.splits)

lemma run_idempotent: "run fos fs = Inr fs' \<Longrightarrow> run fos fs' = Inr fs'"
proof -
  assume r: "run fos fs = Inr fs'"
  have e: "fs' = fs ++ effect fos" using r by (rule run_Inr)
  have "run fos fs' = Inr (fs' ++ effect fos)" using r kinds_kept_refl by (rule rerun)
  moreover have "fs' ++ effect fos = fs'" unfolding e by (rule map_add_twice)
  ultimately show ?thesis by simp
qed

lemma run_append: "run (xs @ ys) fs = and_then (run xs fs) (run ys)"
proof (induction xs arbitrary: fs)
  case Nil
  then show ?case by (simp add: and_then_def)
next
  case (Cons x xs)
  then show ?case by (cases "step x fs") (simp_all add: and_then_def)
qed

lemma write_host_files_run:
  "write_host_files dump output_dir devices fs = run (host_ops dump output_dir devices) fs"
proof (induction devices arbitrary: fs)
  case Nil
  then show ?case by (simp add: host_ops_def)
next
  case (Cons dev devices)
  have "write_host_files dump output_dir devices = run (host_ops dump output_dir devices)"
    using Cons.IH by blast
  then show ?case by (simp add: host_ops_def)
qed

lemma dict_set_keys: "k \<in> set (map fst d) \<Longrightarrow> map fst (dict_set d k v) = map fst d"
proof (induction d)
  case Nil
  then show ?case by simp
next
  case (Cons a d)
  obtain k' v' where a: "a = (k', v')" by (cases a)
  show ?case
  proof (cases "k' = k")
    case True
    then show ?thesis using a by simp
  next
    case False
    then have "k \<in> set (map fst d)" using Cons.prems a by auto
    then show ?thesis using Cons.IH a False by simp
  qed
qed

lemma group_by_building_ok:
  "map fst buildings = [''st1'', ''st2'', ''st3''] \<Longrightarrow>
   \<exists>bs. group_by_building buildings devices = Inr bs"
proof (induction devices arbitrary: buildings)
  case Nil
  then show ?case by simp
next
  case (Cons dev devices)
  show ?case
  proof (cases "extract_building (hostname dev)")
    case None
    then show ?thesis using Cons by simp
  next
    case (Some b)
    then have b: "b \<in> {''st1'', ''st2'', ''st3''}"
      using extract_building_cases [of "hostname dev"] by auto
    then have mem: "b \<in> set (map fst buildings)"
      unfolding Cons.prems by auto
    then obtain ds where ds: "dict_get buildings b = Some ds"
      unfolding dict_get_def by (metis domD dom_map_of_conv_image_fst set_map)
    have keys: "map fst (dict_set buildings b (ds @ [dev])) = [''st1'', ''st2'', ''st3'']"
      using mem Cons.prems by (simp add: dict_set_keys)
    have t: "truthy (Some b)" using b by (auto simp: truthy_def)
    show ?thesis using Some ds t Cons.IH [OF keys] by simp
  qed
qed

lemma inventory_content_ok: "inventory_content devices = Inr (the_inventory devices)"
proof -
  obtain bs where "group_by_building [(''st1'', []), (''st2'', []), (''st3'', [])] devices = Inr bs"
    using group_by_building_ok [of "[(''st1'', []), (''st2'', []), (''st3'', [])]" devices] by auto
  then show ?thesis by (simp add: the_inventory_def inventory_content_def)
qed

lemma main_run: "main dump fs = run (main_ops dump) fs"
proof -
  have h: "create_host_vars_files dump devices_data ''host_vars'' fs
             = run (Mkdir ''host_vars'' # host_ops dump ''host_vars'' devices_data) fs"
    by (simp add: create_host_vars_files_def write_host_files_run [abs_def])
  have g: "create_group_vars dump
             = run [Mkdir ''group_vars'',
                    WriteText (Some ''group_vars'') ''all.yml'' (group_file_text dump)]"
    by (rule ext) (simp add: create_group_vars_def and_then_def split: sum.splits)
  have i: "create_inventory_file devices_data
             = run [WriteText None ''inventory.ini'' (the_inventory devices_data)]"
    by (rule ext) (simp add: create_inventory_file_def inventory_content_ok and_then_def split: sum.splits)
  have r: "create_readme = run [WriteText None ''README.md'' readme_content]"
    by (rule ext) (simp add: create_readme_def and_then_def split: sum.splits)
  have split: "main_ops dump =
      (((Mkdir ''host_vars'' # host_ops dump ''host_vars'' devices_data)
        @ [Mkdir ''group_vars'', WriteText (Some ''group_vars'') ''all.yml'' (group_file_text dump)])
        @ [WriteText None ''inventory.ini'' (the_inventory devices_data)])
        @ [WriteText None ''README.md'' readme_content]"
    by (simp add: main_ops_def)
  show ?thesis
    unfolding main_def h g i r split run_append ..
qed

lemma main_idempotent: "main dump fs = Inr fs' \<Longrightarrow> main dump fs' = Inr fs'"
  unfolding main_run by (rule run_idempotent)

lemma main_effect: "main dump fs = Inr fs' \<Longrightarrow> fs' = fs ++ effect (main_ops dump)"
  unfolding main_run by (rule run_Inr)

lemma inventory_lines_catalog:
  "split_lines (the_inventory devices_data) =
     [''# Multi-Building Campus EVPN Lab Inventory'',
      ''# 4 Superspines + 3 Buildings with selective VLAN stretching'',
      [],
      ''[superspines]'',
      ''dub-ssp1 ansible_host=1.1.1.1'',
      ''dub-ssp2 ansible_host=1.1.1.2'',
      ''dub-ssp3 ansible_host=1.1.1.3'',
      ''dub-ssp4 ansible_host=1.1.1.4'',
      [],
      ''[spines]'',
      ''dub-st1-sp1 ansible_host=1.1.1.5'',
      ''dub-st1-sp2 ansible_host=1.1.1.6'',
      ''dub-st2-sp1 ansible_host=1.1.1.7'',
      ''dub-st2-sp2 ansible_host=1.1.1.8'',
      ''dub-st3-sp1 ansible_host=1.1.1.9'',
      ''dub-st3-sp2 ansible_host=1.1.1.10'',
      [],
      ''[leafs]'',
      ''dub-st1-lf1 ansible_host=1.1.1.11'',
      ''dub-st1-lf2 ansible_host=1.1.1.12'',
      ''dub-st2-lf1 ansible_host=1.1.1.13'',
      ''dub-st2-lf2 ansible_host=1.1.1.14'',
      ''dub-st3-lf1 ansible_host=1.1.1.15'',
      ''dub-st3-lf2 ansible_host=1.1.1.16'',
      [],
      ''[st1]'',
      ''dub-st1-sp1 ansible_host=1.1.1.5'',
      ''dub-st1-sp2 ansible_host=1.1.1.6'',
      ''dub-st1-lf1 ansible_host=1.1.1.11'',
      ''dub-st1-lf2 ansible_host=1.1.1.12'',
      [],
      ''[st2]'',
      ''dub-st2-sp1 ansible_host=1.1.1.7'',
      ''dub-st2-sp2 ansible_host=1.1.1.8'',
      ''dub-st2-lf1 ansible_host=1.1.1.13'',
      ''dub-st2-lf2 ansible_host=1.1.1.14'',
      [],
      ''[st3]'',
      ''dub-st3-sp1 ansible_host=1.1.1.9'',
      ''dub-st3-sp2 ansible_host=1.1.1.10'',
      ''dub-st3-lf1 ansible_host=1.1.1.15'',
      ''dub-st3-lf2 ansible_host=1.1.1.16'',
      [],
      ''# Hierarchical groups'',
      ''[all:children]'',
      ''superspines'',
      ''spines'',
      ''leafs'',
      [],
      ''# Device type groups for targeted playbook runs'',
      ''[route_reflectors:children]'',
      ''superspines'',
      [],
      ''[vtep_devices:children]'',
      ''spines'',
      ''leafs'',
      [],
      ''# Building groups for VLAN-specific deployments'',
      ''[building_st1:children]'',
      ''st1'',
      [],
      ''[building_st2:children]'',
      ''st2'',
      [],
      ''[building_st3:children]'',
      ''st3'',
      []]"
  by code_simp

lemma dom_effect: "dom (effect fos) = target ` set fos"
  by (simp add: effect_def dom_map_of_conv_image_fst image_image)

lemma output_files_targets: "set output_files \<subseteq> target ` set (main_ops dump)"
  by (auto simp: output_files_def main_ops_def host_ops_def image_image)

lemma main_output: 
  assumes "main dump fs = Inr fs'" and "p \<in> set output_files"
  shows "fs' p = effect (main_ops dump) p"
proof -
  have "p \<in> dom (effect (main_ops dump))"
    using assms(2) output_files_targets [of dump] by (auto simp: dom_effect)
  then obtain n where "effect (main_ops dump) p = Some n" by blast
  then show ?thesis using main_effect [OF assms(1)] by (simp add: map_add_def)
qed

lemma main_from_empty: "main dump Map.empty = Inr (effect (main_ops dump))"
proof -
  have "\<exists>fs'. main dump Map.empty = Inr fs'"
    unfolding main_run main_ops_def host_ops_def devices_data_def
    by (simp add: and_then_def mkdir_exist_ok_def write_text_def path_join_def mk_device_def)
  then obtain fs' where m: "main dump Map.empty = Inr fs'" by blast
  then show ?thesis using main_effect [OF m] by simp
qed

lemma effect_distinct:
  assumes "distinct (map target fos)" and "fo \<in> set fos"
  shows "effect fos (target fo) = Some (node_of fo)"
proof -
  let ?kvs = "rev (map (\<lambda>fo. (target fo, node_of fo)) fos)"
  have "map fst ?kvs = rev (map target fos)" by (simp add: rev_map comp_def)
  then have "distinct (map fst ?kvs)" using assms(1) by simp
  moreover have "(target fo, node_of fo) \<in> set ?kvs" using assms(2) by auto
  ultimately show ?thesis unfolding effect_def by (simp only: map_of_eq_Some_iff)
qed

lemma main_ops_distinct: "distinct (map target (main_ops dump))"
  by (simp add: main_ops_def host_ops_def devices_data_def mk_device_def path_join_def)

lemma render_items_host: "host_items_text dump hv = concat (map (render_entry dump) hv)"
  by (induction dump hv rule: host_items_text.induct) (simp_all add: render_entry_def split: option.splits)

lemma render_items_group: "group_items_text dump gv = concat (map (render_entry dump) gv)"
  by (induction dump gv rule: group_items_text.induct) (simp_all add: render_entry_def split: option.splits)


text \<open>The inventory file on disk.\<close>

lemma catalog_section_counts: "section_counts (the_inventory devices_data) = [4, 6, 6, 4, 4, 4]"
  unfolding section_counts_def inventory_lines_catalog by (simp add: section_entries_def)

lemma create_inventory_file_writes:
  "create_inventory_file devices fs = Inr fs' \<Longrightarrow>
     fs' ''inventory.ini'' = Some (File (the_inventory devices))"
  by (auto simp: create_inventory_file_def inventory_content_ok write_text_def
           split: option.splits node.splits)

lemma main_inventory_file:
  assumes "main dump fs = Inr fs'"
  shows "fs' ''inventory.ini'' = Some (File (the_inventory devices_data))"
proof -
  let ?fo = "WriteText None ''inventory.ini'' (the_inventory devices_data)"
  have "?fo \<in> set (main_ops dump)" by (simp add: main_ops_def)
  with main_ops_distinct have "effect (main_ops dump) (target ?fo) = Some (node_of ?fo)"
    by (rule effect_distinct)
  then show ?thesis using main_effect [OF assms] by (simp add: map_add_def)
qed

section \<open>Classifier properties\<close>

text \<open>
  C2. For every hostname the device type is superspine when the hostname contains
  \<open>-ssp\<close>; otherwise spine when it contains \<open>-sp\<close>; otherwise leaf when it contains
  \<open>-lf\<close>; otherwise unknown. The three hostnames of the specification classify as
  superspine, spine and leaf.
\<close>

theorem determine_device_type_spec:
  "determine_device_type h =
     (if (\<exists>ps ss. h = ps @ ''-ssp'' @ ss) then ''superspine''
      else if (\<exists>ps ss. h = ps @ ''-sp'' @ ss) then ''spine''
      else if (\<exists>ps ss. h = ps @ ''-lf'' @ ss) then ''leaf''
      else ''unknown'')
   \<and> determine_device_type ''dub-ssp1'' = ''superspine''
   \<and> determine_device_type ''dub-st1-sp1'' = ''spine''
   \<and> determine_device_type ''dub-st1-lf1'' = ''leaf''"
proof -
  have general: "determine_device_type h =
     (if (\<exists>ps ss. h = ps @ ''-ssp'' @ ss) then ''superspine''
      else if (\<exists>ps ss. h = ps @ ''-sp'' @ ss) then ''spine''
      else if (\<exists>ps ss. h = ps @ ''-lf'' @ ss) then ''leaf''
      else ''unknown'')"
    unfolding determine_device_type_def str_in_iff [symmetric] by simp
  have "determine_device_type ''dub-ssp1'' = ''superspine''"
    and "determine_device_type ''dub-st1-sp1'' = ''spine''"
    and "determine_device_type ''dub-st1-lf1'' = ''leaf''"
    by (simp_all add: determine_device_type_def)
  with general show ?thesis by blast
qed

text \<open>
  C5, as stated, fails: a hostname that contains \<open>-st1-\<close> and \<open>-st2-\<close> is classified st1,
  although it contains the token of st2.
\<close>

theorem extract_building_counterexample:
  "str_in ''-st2-'' ''dub-st1-st2-lf1'' \<and> extract_building ''dub-st1-st2-lf1'' = Some ''st1''"
  by (simp add: extract_building_def)

text \<open>
  C5, amended. The tokens are tried in the order st1, st2, st3 and the first one found
  wins: the building is st1 exactly when the hostname contains \<open>-st1-\<close>; st2 exactly when
  it contains \<open>-st2-\<close> and not \<open>-st1-\<close>; st3 exactly when it contains \<open>-st3-\<close> and neither
  of the other two; none exactly when it contains no token. \<open>dub-st2-lf2\<close> is in st2
  and \<open>dub-ssp3\<close> in no building.
\<close>

theorem extract_building_spec:
  "(extract_building h = Some ''st1'' \<longleftrightarrow> (\<exists>ps ss. h = ps @ ''-st1-'' @ ss))
   \<and> (extract_building h = Some ''st2'' \<longleftrightarrow>
        (\<exists>ps ss. h = ps @ ''-st2-'' @ ss) \<and> \<not> (\<exists>ps ss. h = ps @ ''-st1-'' @ ss))
   \<and> (extract_building h = Some ''st3'' \<longleftrightarrow>
        (\<exists>ps ss. h = ps @ ''-st3-'' @ ss) \<and> \<not> (\<exists>ps ss. h = ps @ ''-st1-'' @ ss)
        \<and> \<not> (\<exists>ps ss. h = ps @ ''-st2-'' @ ss))
   \<and> (extract_building h = None \<longleftrightarrow>
        \<not> (\<exists>ps ss. h = ps @ ''-st1-'' @ ss) \<and> \<not> (\<exists>ps ss. h = ps @ ''-st2-'' @ ss)
        \<and> \<not> (\<exists>ps ss. h = ps @ ''-st3-'' @ ss))
   \<and> extract_building ''dub-st2-lf2'' = Some ''st2''
   \<and> extract_building ''dub-ssp3'' = None"
proof -
  have general: "(extract_building h = Some ''st1'' \<longleftrightarrow> str_in ''-st1-'' h)
   \<and> (extract_building h = Some ''st2'' \<longleftrightarrow> str_in ''-st2-'' h \<and> \<not> str_in ''-st1-'' h)
   \<and> (extract_building h = Some ''st3'' \<longleftrightarrow>
        str_in ''-st3-'' h \<and> \<not> str_in ''-st1-'' h \<and> \<not> str_in ''-st2-'' h)
   \<and> (extract_building h = None \<longleftrightarrow>
        \<not> str_in ''-st1-'' h \<and> \<not> str_in ''-st2-'' h \<and> \<not> str_in ''-st3-'' h)"
    by (simp add: extract_building_def)
  have "extract_building ''dub-st2-lf2'' = Some ''st2''"
    and "extract_building ''dub-ssp3'' = None"
    by (simp_all add: extract_building_def)
  with general show ?thesis unfolding str_in_iff by blast
qed

text \<open>
  C6. The VLAN lookup is a total table: \<open>[100, 200, 300]\<close> for st1, \<open>[200, 300, 400]\<close>
  for st2, \<open>[100, 300, 400]\<close> for st3, and the empty list for any other argument
  (any other string, and \<open>None\<close>); no argument makes it fail.
\<close>

theorem get_building_vlans_spec:
  "get_building_vlans b =
     (if b = Some ''st1'' then [100, 200, 300]
      else if b = Some ''st2'' then [200, 300, 400]
      else if b = Some ''st3'' then [100, 300, 400]
      else [])"
  by (rule get_building_vlans_eq)

section \<open>Properties of the variable builder\<close>

text \<open>
  C1. VNI = VLAN + 10000 in both scopes. A spine or leaf whose hostname resolves to a
  building has a non-empty \<open>vni_mappings\<close> table in which every entry maps a VLAN id to
  that id plus 10000; whatever table a device has under \<open>vni_mappings\<close> has only such
  entries; and \<open>global_vni_mappings\<close> of the group variables is a non-empty table of
  such entries.
\<close>

theorem vni_is_vlan_plus_10000:
  "(determine_device_type (hostname dev) \<in> {''spine'', ''leaf''} \<longrightarrow>
    extract_building (hostname dev) \<noteq> None \<longrightarrow>
      (\<exists>m. dict_get (generate_host_vars dev) ''vni_mappings'' = Some (Some (PDict m))
           \<and> m \<noteq> [] \<and> list_all vni_entry_ok m))
   \<and> (\<forall>m. dict_get (generate_host_vars dev) ''vni_mappings'' = Some (Some (PDict m)) \<longrightarrow>
           list_all vni_entry_ok m)
   \<and> (\<exists>g. dict_get group_vars ''global_vni_mappings'' = Some (Some (PDict g))
           \<and> g \<noteq> [] \<and> list_all vni_entry_ok g)"
proof (intro conjI impI allI)
  assume t: "determine_device_type (hostname dev) \<in> {''spine'', ''leaf''}"
    and b: "extract_building (hostname dev) \<noteq> None"
  let ?m = "vni_of_vlans (get_building_vlans (extract_building (hostname dev)))"
  have "dict_get (generate_host_vars dev) ''vni_mappings'' = Some (Some (PDict ?m))"
    using t b by (simp add: get_vni_mappings)
  moreover have "?m \<noteq> []"
    using b extract_building_cases [of "hostname dev"]
    by (auto simp: vni_of_vlans_def get_building_vlans_eq)
  moreover have "list_all vni_entry_ok ?m" by (rule vni_of_vlans_ok)
  ultimately show "\<exists>m. dict_get (generate_host_vars dev) ''vni_mappings'' = Some (Some (PDict m))
           \<and> m \<noteq> [] \<and> list_all vni_entry_ok m" by blast
next
  fix m
  assume "dict_get (generate_host_vars dev) ''vni_mappings'' = Some (Some (PDict m))"
  then have "m = vni_of_vlans (get_building_vlans (extract_building (hostname dev)))"
    by (simp add: get_vni_mappings split: if_splits)
  then show "list_all vni_entry_ok m" by (simp add: vni_of_vlans_ok)
next
  show "\<exists>g. dict_get group_vars ''global_vni_mappings'' = Some (Some (PDict g))
           \<and> g \<noteq> [] \<and> list_all vni_entry_ok g"
    by (simp add: dict_get_def group_vars_def)
qed

theorem vni_is_vlan_plus_10000_witness:
  "determine_device_type (hostname (mk_device ''dub-st1-sp1'' ''10.10.10.5'' ''20.20.20.5'' ''1.1.1.5''))
     = ''spine''
   \<and> extract_building (hostname (mk_device ''dub-st1-sp1'' ''10.10.10.5'' ''20.20.20.5'' ''1.1.1.5''))
     = Some ''st1''
   \<and> dict_get (generate_host_vars (mk_device ''dub-st1-sp1'' ''10.10.10.5'' ''20.20.20.5'' ''1.1.1.5''))
        ''vni_mappings''
     = Some (Some (PDict [(PInt 100, PInt 10100), (PInt 200, PInt 10200), (PInt 300, PInt 10300)]))
   \<and> list_all vni_entry_ok [(PInt 100, PInt 10100), (PInt 200, PInt 10200), (PInt 300, PInt 10300)]"
proof -
  let ?d = "mk_device ''dub-st1-sp1'' ''10.10.10.5'' ''20.20.20.5'' ''1.1.1.5''"
  have t: "determine_device_type (hostname ?d) = ''spine''"
    by (simp add: mk_device_def determine_device_type_def)
  have b: "extract_building (hostname ?d) = Some ''st1''"
    by (simp add: mk_device_def extract_building_def)
  have g: "dict_get (generate_host_vars ?d) ''vni_mappings''
     = Some (Some (PDict [(PInt 100, PInt 10100), (PInt 200, PInt 10200), (PInt 300, PInt 10300)]))"
    using t b by (simp add: get_vni_mappings get_building_vlans_eq vni_of_vlans_def)
  from vni_is_vlan_plus_10000 [of ?d] g
  have "list_all vni_entry_ok [(PInt 100, PInt 10100), (PInt 200, PInt 10200), (PInt 300, PInt 10300)]"
    by blast
  with t b g show ?thesis by blast
qed

text \<open>
  C3. In the variables of a superspine there is no \<open>vtep_ip\<close>, \<open>bgp_role\<close> is
  \<open>route_reflector\<close> and \<open>route_reflector_cluster_id\<close> is present. In the variables of a
  spine or a leaf \<open>vtep_ip\<close> is the device's \<open>loopback1\<close> and there is no
  \<open>route_reflector_cluster_id\<close>. This holds for every device record, so for each of the
  catalog.
\<close>

theorem role_fields_by_device_type:
  "(determine_device_type (hostname dev) = ''superspine'' \<longrightarrow>
      \<not> has_key (generate_host_vars dev) ''vtep_ip''
      \<and> dict_get (generate_host_vars dev) ''bgp_role'' = Some (Some (PStr ''route_reflector''))
      \<and> has_key (generate_host_vars dev) ''route_reflector_cluster_id'')
   \<and> (determine_device_type (hostname dev) \<in> {''spine'', ''leaf''} \<longrightarrow>
      dict_get (generate_host_vars dev) ''vtep_ip'' = Some (Some (PStr (loopback1 dev)))
      \<and> \<not> has_key (generate_host_vars dev) ''route_reflector_cluster_id'')"
  by (auto simp: has_key_def get_vtep_ip get_bgp_role get_cluster_id)

theorem role_fields_by_device_type_witness:
  "determine_device_type (hostname (devices_data ! 0)) = ''superspine''
   \<and> \<not> has_key (generate_host_vars (devices_data ! 0)) ''vtep_ip''
   \<and> dict_get (generate_host_vars (devices_data ! 0)) ''bgp_role''
       = Some (Some (PStr ''route_reflector''))
   \<and> has_key (generate_host_vars (devices_data ! 0)) ''route_reflector_cluster_id''
   \<and> determine_device_type (hostname (devices_data ! 6)) = ''leaf''
   \<and> dict_get (generate_host_vars (devices_data ! 6)) ''vtep_ip'' = Some (Some (PStr ''20.20.20.11''))
   \<and> \<not> has_key (generate_host_vars (devices_data ! 6)) ''route_reflector_cluster_id''"
proof -
  have t0: "determine_device_type (hostname (devices_data ! 0)) = ''superspine''"
    by (simp add: devices_data_def mk_device_def determine_device_type_def)
  have t6: "determine_device_type (hostname (devices_data ! 6)) = ''leaf''"
    by (simp add: devices_data_def mk_device_def determine_device_type_def)
  have l6: "loopback1 (devices_data ! 6) = ''20.20.20.11''"
    by (simp add: devices_data_def mk_device_def)
  show ?thesis
    using role_fields_by_device_type [of "devices_data ! 0"]
      role_fields_by_device_type [of "devices_data ! 6"] t0 t6 l6
    by simp
qed

text \<open>
  C4. The \<open>building\<close> and \<open>vlans\<close> fields are present exactly when a building was
  resolved from the hostname, and then hold that building and its VLAN list. The
  \<open>vni_mappings\<close> field is present exactly when the device is a spine or a leaf, a building
  was resolved and the building's VLAN list is not empty; it then lists one entry per
  VLAN of the building, VLAN to VLAN + 10000, in the order of the building's VLAN list.
\<close>

theorem building_and_vni_fields:
  "(has_key (generate_host_vars dev) ''building'' \<longleftrightarrow> extract_building (hostname dev) \<noteq> None)
   \<and> (has_key (generate_host_vars dev) ''vlans'' \<longleftrightarrow> extract_building (hostname dev) \<noteq> None)
   \<and> (\<forall>b. extract_building (hostname dev) = Some b \<longrightarrow>
         dict_get (generate_host_vars dev) ''building'' = Some (Some (PStr b))
         \<and> dict_get (generate_host_vars dev) ''vlans''
             = Some (Some (PList (map PInt (get_building_vlans (Some b))))))
   \<and> (has_key (generate_host_vars dev) ''vni_mappings'' \<longleftrightarrow>
         determine_device_type (hostname dev) \<in> {''spine'', ''leaf''}
         \<and> extract_building (hostname dev) \<noteq> None
         \<and> get_building_vlans (extract_building (hostname dev)) \<noteq> [])
   \<and> (has_key (generate_host_vars dev) ''vni_mappings'' \<longrightarrow>
         dict_get (generate_host_vars dev) ''vni_mappings''
           = Some (Some (PDict (map (\<lambda>vlan. (PInt vlan, PInt (vlan + 10000)))
                                  (get_building_vlans (extract_building (hostname dev)))))))"
proof -
  have nonempty: "extract_building (hostname dev) \<noteq> None \<Longrightarrow>
      get_building_vlans (extract_building (hostname dev)) \<noteq> []"
    using extract_building_cases [of "hostname dev"] by (auto simp: get_building_vlans_eq)
  show ?thesis
    using nonempty
    by (auto simp: has_key_def get_building get_vlans get_vni_mappings vni_of_vlans_def
             split: option.splits)
qed

theorem building_and_vni_fields_witness:
  "extract_building (hostname (devices_data ! 10)) = Some ''st2''
   \<and> determine_device_type (hostname (devices_data ! 10)) = ''leaf''
   \<and> dict_get (generate_host_vars (devices_data ! 10)) ''building'' = Some (Some (PStr ''st2''))
   \<and> dict_get (generate_host_vars (devices_data ! 10)) ''vlans''
       = Some (Some (PList [PInt 200, PInt 300, PInt 400]))
   \<and> has_key (generate_host_vars (devices_data ! 10)) ''vni_mappings''
   \<and> dict_get (generate_host_vars (devices_data ! 10)) ''vni_mappings''
       = Some (Some (PDict [(PInt 200, PInt 10200), (PInt 300, PInt 10300), (PInt 400, PInt 10400)]))
   \<and> extract_building (hostname (devices_data ! 2)) = None
   \<and> \<not> has_key (generate_host_vars (devices_data ! 2)) ''building''
   \<and> \<not> has_key (generate_host_vars (devices_data ! 2)) ''vlans''
   \<and> \<not> has_key (generate_host_vars (devices_data ! 2)) ''vni_mappings''"
proof -
  have b10: "extract_building (hostname (devices_data ! 10)) = Some ''st2''"
    by (simp add: devices_data_def mk_device_def extract_building_def)
  have t10: "determine_device_type (hostname (devices_data ! 10)) = ''leaf''"
    by (simp add: devices_data_def mk_device_def determine_device_type_def)
  have b2: "extract_building (hostname (devices_data ! 2)) = None"
    by (simp add: devices_data_def mk_device_def extract_building_def)
  show ?thesis
    using building_and_vni_fields [of "devices_data ! 10"]
      building_and_vni_fields [of "devices_data ! 2"] b10 t10 b2
    by (simp add: get_building_vlans_eq)
qed

text \<open>
  C10. A device whose hostname matches none of the type patterns (type unknown) takes
  the else-branch of the superspine test: its variables hold \<open>vtep_ip\<close> equal to its
  \<open>loopback1\<close>, \<open>bgp_role\<close> equal to \<open>route_reflector_client\<close>, and both the \<open>loopback0\<close>
  and the \<open>loopback1\<close> interface entries.
\<close>

theorem unknown_device_is_vtep:
  "determine_device_type (hostname dev) = ''unknown'' \<Longrightarrow>
     dict_get (generate_host_vars dev) ''vtep_ip'' = Some (Some (PStr (loopback1 dev)))
     \<and> dict_get (generate_host_vars dev) ''bgp_role'' = Some (Some (PStr ''route_reflector_client''))
     \<and> dict_get (generate_host_vars dev) ''loopback_interfaces'' =
         Some (Some (PDict
           [(PStr ''loopback0'', PDict
              [(PStr ''description'', PStr ''Router-ID for OSPF and BGP''),
               (PStr ''ip_address'', PStr (loopback0 dev @ ''/32''))]),
            (PStr ''loopback1'', PDict
              [(PStr ''description'', PStr ''VTEP Loopback for VXLAN''),
               (PStr ''ip_address'', PStr (loopback1 dev @ ''/32''))])]))
     \<and> \<not> has_key (generate_host_vars dev) ''route_reflector_cluster_id''"
  by (simp add: has_key_def get_vtep_ip get_bgp_role get_cluster_id get_loopback_interfaces)

theorem unknown_device_is_vtep_witness:
  "determine_device_type (hostname (mk_device ''dub-core1'' ''10.10.10.20'' ''20.20.20.20'' ''1.1.1.20''))
     = ''unknown''
   \<and> dict_get (generate_host_vars (mk_device ''dub-core1'' ''10.10.10.20'' ''20.20.20.20'' ''1.1.1.20''))
       ''vtep_ip'' = Some (Some (PStr ''20.20.20.20''))
   \<and> dict_get (generate_host_vars (mk_device ''dub-core1'' ''10.10.10.20'' ''20.20.20.20'' ''1.1.1.20''))
       ''bgp_role'' = Some (Some (PStr ''route_reflector_client''))
   \<and> dict_get (generate_host_vars (mk_device ''dub-core1'' ''10.10.10.20'' ''20.20.20.20'' ''1.1.1.20''))
       ''loopback_interfaces'' =
         Some (Some (PDict
           [(PStr ''loopback0'', PDict
              [(PStr ''description'', PStr ''Router-ID for OSPF and BGP''),
               (PStr ''ip_address'', PStr ''10.10.10.20/32'')]),
            (PStr ''loopback1'', PDict
              [(PStr ''description'', PStr ''VTEP Loopback for VXLAN''),
               (PStr ''ip_address'', PStr ''20.20.20.20/32'')])]))"
proof -
  let ?d = "mk_device ''dub-core1'' ''10.10.10.20'' ''20.20.20.20'' ''1.1.1.20''"
  have t: "determine_device_type (hostname ?d) = ''unknown''"
    by (simp add: mk_device_def determine_device_type_def)
  have l: "loopback0 ?d = ''10.10.10.20''" "loopback1 ?d = ''20.20.20.20''"
    by (simp_all add: mk_device_def)
  show ?thesis
    using unknown_device_is_vtep [OF t] t l by simp
qed

section \<open>Properties of the emitters\<close>

text \<open>
  C7. The catalog has 16 device records, each classified superspine, spine or leaf
  (none unknown). The file that \<open>create_inventory_file\<close> writes, and so the file a
  successful run of \<open>main\<close> leaves at \<open>inventory.ini\<close>, lists 4 devices under
  \<open>[superspines]\<close>, 6 under \<open>[spines]\<close>, 6 under \<open>[leafs]\<close> and 4 under each of \<open>[st1]\<close>,
  \<open>[st2]\<close>, \<open>[st3]\<close>; building the inventory text never fails.
\<close>

theorem catalog_and_inventory_counts:
  "length devices_data = 16
   \<and> list_all (\<lambda>d. determine_device_type (hostname d) \<in> {''superspine'', ''spine'', ''leaf''})
        devices_data
   \<and> (\<exists>content. inventory_content devices_data = Inr content
        \<and> length (section_entries ''[superspines]'' (split_lines content)) = 4
        \<and> length (section_entries ''[spines]'' (split_lines content)) = 6
        \<and> length (section_entries ''[leafs]'' (split_lines content)) = 6
        \<and> length (section_entries ''[st1]'' (split_lines content)) = 4
        \<and> length (section_entries ''[st2]'' (split_lines content)) = 4
        \<and> length (section_entries ''[st3]'' (split_lines content)) = 4)
   \<and> (\<forall>fs1. create_inventory_file devices_data fs = Inr fs1 \<longrightarrow>
        (\<exists>content. fs1 ''inventory.ini'' = Some (File content)
           \<and> section_counts content = [4, 6, 6, 4, 4, 4]))
   \<and> (\<forall>fs'. main dump fs = Inr fs' \<longrightarrow>
        (\<exists>content. fs' ''inventory.ini'' = Some (File content)
           \<and> length (section_entries ''[superspines]'' (split_lines content)) = 4
           \<and> length (section_entries ''[spines]'' (split_lines content)) = 6
           \<and> length (section_entries ''[leafs]'' (split_lines content)) = 6
           \<and> length (section_entries ''[st1]'' (split_lines content)) = 4
           \<and> length (section_entries ''[st2]'' (split_lines content)) = 4
           \<and> length (section_entries ''[st3]'' (split_lines content)) = 4))"
proof -
  have c: "section_counts (the_inventory devices_data) = [4, 6, 6, 4, 4, 4]"
    by (rule catalog_section_counts)
  then have counts:
    "length (section_entries ''[superspines]'' (split_lines (the_inventory devices_data))) = 4
     \<and> length (section_entries ''[spines]'' (split_lines (the_inventory devices_data))) = 6
     \<and> length (section_entries ''[leafs]'' (split_lines (the_inventory devices_data))) = 6
     \<and> length (section_entries ''[st1]'' (split_lines (the_inventory devices_data))) = 4
     \<and> length (section_entries ''[st2]'' (split_lines (the_inventory devices_data))) = 4
     \<and> length (section_entries ''[st3]'' (split_lines (the_inventory devices_data))) = 4"
    by (simp add: section_counts_def)
  have n: "length devices_data = 16" by (simp add: devices_data_def)
  have t: "list_all (\<lambda>d. determine_device_type (hostname d) \<in> {''superspine'', ''spine'', ''leaf''})
        devices_data"
    by (simp add: devices_data_def mk_device_def determine_device_type_def)
  have i: "inventory_content devices_data = Inr (the_inventory devices_data)"
    by (rule inventory_content_ok)
  have w: "\<forall>fs1. create_inventory_file devices_data fs = Inr fs1 \<longrightarrow>
        (\<exists>content. fs1 ''inventory.ini'' = Some (File content)
           \<and> section_counts content = [4, 6, 6, 4, 4, 4])"
    using create_inventory_file_writes c by blast
  have m: "\<forall>fs'. main dump fs = Inr fs' \<longrightarrow>
        fs' ''inventory.ini'' = Some (File (the_inventory devices_data))"
    using main_inventory_file by blast
  from n t i counts w m show ?thesis by blast
qed

theorem catalog_and_inventory_counts_witness:
  "\<exists>fs' content.
     main (\<lambda>key v. key @ '':\<newline>'') Map.empty = Inr fs'
     \<and> fs' ''inventory.ini'' = Some (File content)
     \<and> length (section_entries ''[superspines]'' (split_lines content)) = 4
     \<and> length (section_entries ''[spines]'' (split_lines content)) = 6
     \<and> length (section_entries ''[leafs]'' (split_lines content)) = 6
     \<and> length (section_entries ''[st1]'' (split_lines content)) = 4
     \<and> length (section_entries ''[st2]'' (split_lines content)) = 4
     \<and> length (section_entries ''[st3]'' (split_lines content)) = 4"
proof -
  let ?dump = "\<lambda>key v. key @ '':\<newline>''"
  have m: "main ?dump Map.empty = Inr (effect (main_ops ?dump))" by (rule main_from_empty)
  from catalog_and_inventory_counts [where dump = ?dump and fs = Map.empty] m show ?thesis by blast
qed


text \<open>
  C9. Both emitters render a mapping by one rule: the document-start marker \<open>---\<close>,
  then the entries in insertion order, a \<open>None\<close> entry as an empty line followed by its
  key (the comment text), any other entry as the serializer's block-style text of the
  key/value pair. After a successful run the file of every catalog device and the global
  file hold exactly that rendering of the device's variables and of the group variables.
\<close>

theorem emitters_render_alike:
  "host_file_text dump hv = render_vars dump hv
   \<and> group_file_text dump = render_vars dump group_vars
   \<and> (main dump fs = Inr fs' \<longrightarrow>
        (\<forall>dev \<in> set devices_data.
           fs' (path_join ''host_vars'' (hostname dev @ ''.yml''))
             = Some (File (render_vars dump (generate_host_vars dev))))
        \<and> fs' (path_join ''group_vars'' ''all.yml'') = Some (File (render_vars dump group_vars)))"
proof (intro conjI impI ballI)
  show h: "\<And>hv. host_file_text dump hv = render_vars dump hv"
    by (simp add: host_file_text_def render_vars_def render_items_host)
  show g: "group_file_text dump = render_vars dump group_vars"
    by (simp add: group_file_text_def render_vars_def render_items_group)
  {
    fix fo assume m: "main dump fs = Inr fs'" and fo: "fo \<in> set (main_ops dump)"
    have "effect (main_ops dump) (target fo) = Some (node_of fo)"
      using main_ops_distinct fo by (rule effect_distinct)
    then have "fs' (target fo) = Some (node_of fo)"
      using main_effect [OF m] by (simp add: map_add_def)
  } note written = this
  {
    fix dev assume m: "main dump fs = Inr fs'" and d: "dev \<in> set devices_data"
    let ?fo = "WriteText (Some ''host_vars'') (hostname dev @ ''.yml'')
                 (host_file_text dump (generate_host_vars dev))"
    have "?fo \<in> set (main_ops dump)" using d by (simp add: main_ops_def host_ops_def)
    from written [OF m this]
    show "fs' (path_join ''host_vars'' (hostname dev @ ''.yml''))
             = Some (File (render_vars dump (generate_host_vars dev)))"
      by (simp add: h)
  }
  {
    assume m: "main dump fs = Inr fs'"
    let ?fo = "WriteText (Some ''group_vars'') ''all.yml'' (group_file_text dump)"
    have "?fo \<in> set (main_ops dump)" by (simp add: main_ops_def)
    from written [OF m this]
    show "fs' (path_join ''group_vars'' ''all.yml'') = Some (File (render_vars dump group_vars))"
      by (simp add: g)
  }
qed

theorem emitters_render_alike_witness:
  "\<exists>fs'. main (\<lambda>key v. key @ '':\<newline>'') Map.empty = Inr fs'
     \<and> fs' ''host_vars/dub-ssp1.yml''
         = Some (File (render_vars (\<lambda>key v. key @ '':\<newline>'') (generate_host_vars (devices_data ! 0))))
     \<and> fs' ''group_vars/all.yml''
         = Some (File (render_vars (\<lambda>key v. key @ '':\<newline>'') group_vars))
     \<and> take 33 (render_vars (\<lambda>key v. key @ '':\<newline>'') group_vars)
         = ''---\<newline>\<newline># Global network parameters\<newline>''"
proof -
  let ?dump = "\<lambda>key v. key @ '':\<newline>''"
  let ?fs' = "effect (main_ops ?dump)"
  have m: "main ?dump Map.empty = Inr ?fs'" by (rule main_from_empty)
  have d: "devices_data ! 0 \<in> set devices_data" by (simp add: devices_data_def)
  have h: "hostname (devices_data ! 0) = ''dub-ssp1''" by (simp add: devices_data_def mk_device_def)
  from emitters_render_alike [of ?dump _ Map.empty ?fs'] m d
  have "?fs' (path_join ''host_vars'' (hostname (devices_data ! 0) @ ''.yml''))
          = Some (File (render_vars ?dump (generate_host_vars (devices_data ! 0))))"
    and g: "?fs' (path_join ''group_vars'' ''all.yml'') = Some (File (render_vars ?dump group_vars))"
    by blast+
  then have f: "?fs' ''host_vars/dub-ssp1.yml''
          = Some (File (render_vars ?dump (generate_host_vars (devices_data ! 0))))"
    by (simp add: h path_join_def)
  have g': "?fs' ''group_vars/all.yml'' = Some (File (render_vars ?dump group_vars))"
    using g by (simp add: path_join_def)
  have t: "take 33 (render_vars ?dump group_vars) = ''---\<newline>\<newline># Global network parameters\<newline>''"
    by (simp add: render_vars_def render_entry_def group_vars_def)
  from m f g' t show ?thesis by blast
qed

text \<open>
  C8. Generation is deterministic and idempotent. The group variables are a constant and
  the host variables a function of the device record alone. A run that succeeds leaves a
  file system on which a second run succeeds and changes nothing; and the content of every
  generated file is the same after any two successful runs, whatever the file systems
  they started from.
\<close>

theorem generation_idempotent:
  "main dump fs = Inr fs' \<Longrightarrow>
     main dump fs' = Inr fs'
     \<and> (\<forall>gs gs'. main dump gs = Inr gs' \<longrightarrow> (\<forall>p \<in> set output_files. gs' p = fs' p))"
proof (intro conjI allI impI ballI)
  assume m: "main dump fs = Inr fs'"
  show "main dump fs' = Inr fs'" using m by (rule main_idempotent)
  fix gs gs' p
  assume g: "main dump gs = Inr gs'" and p: "p \<in> set output_files"
  show "gs' p = fs' p"
    using main_output [OF g p] main_output [OF m p] by simp
qed

theorem generation_idempotent_witness:
  "\<exists>fs'. main (\<lambda>key v. key @ '':\<newline>'') Map.empty = Inr fs'
     \<and> main (\<lambda>key v. key @ '':\<newline>'') fs' = Inr fs'
     \<and> fs' ''README.md'' = Some (File readme_content)"
proof -
  let ?dump = "\<lambda>key v. key @ '':\<newline>''"
  let ?fs' = "effect (main_ops ?dump)"
  have m: "main ?dump Map.empty = Inr ?fs'" by (rule main_from_empty)
  have i: "main ?dump ?fs' = Inr ?fs'" using generation_idempotent [OF m] by blast
  have "WriteText None ''README.md'' readme_content \<in> set (main_ops ?dump)"
    by (simp add: main_ops_def)
  then have "?fs' (target (WriteText None ''README.md'' readme_content))
               = Some (node_of (WriteText None ''README.md'' readme_content))"
    using main_ops_distinct effect_distinct by blast
  then have r: "?fs' ''README.md'' = Some (File readme_content)" by simp
  from m i r show ?thesis by blast
qed

end
